theory Spec2Isabelle
  imports Complex_Main
begin

section \<open>The Vanish e-mail client (src/vanish.ts)\<close>

text \<open>
  The client is one class, \<^verbatim>\<open>VanishClient\<close>, whose operations all go through the private
  function \<^verbatim>\<open>request\<close>. The network, the clock and the timers are the platform's; here they
  are an explicit environment, and the effects of an operation (the requests it sends,
  the time that passes, the sleeps it takes) are recorded in an explicit state.
\<close>

subsection \<open>JavaScript values\<close>

text \<open>
  Values of type \<^verbatim>\<open>unknown\<close>/\<^verbatim>\<open>any\<close>: what \<^verbatim>\<open>JSON.parse\<close> can return, and
  \<^verbatim>\<open>undefined\<close>. Numbers are the integers (of magnitude below \<open>10^21\<close>, which
  \<^verbatim>\<open>String\<close> prints in plain decimal); an object lists its own enumerable properties in
  enumeration order, with distinct keys.
\<close>

datatype jsval =
    JUndefined
  | JNull
  | JBool bool
  | JNum int
  | JStr string
  | JArr "jsval list"
  | JObj "(string \<times> jsval) list"

text \<open>ToBoolean: the condition of \<^verbatim>\<open>if (v)\<close>, \<^verbatim>\<open>v ? a : b\<close> and \<^verbatim>\<open>v || w\<close>.\<close>

fun truthy :: "jsval \<Rightarrow> bool" where
  "truthy JUndefined = False"
| "truthy JNull = False"
| "truthy (JBool b) = b"
| "truthy (JNum n) = (n \<noteq> 0)"
| "truthy (JStr s) = (s \<noteq> [])"
| "truthy (JArr vs) = True"
| "truthy (JObj kvs) = True"

definition digit_char :: "nat \<Rightarrow> char" where
  "digit_char d = ''0123456789ABCDEF'' ! d"

fun nat_digits :: "nat \<Rightarrow> string" where
  "nat_digits n = (if n < 10 then [digit_char n] else nat_digits (n div 10) @ [digit_char (n mod 10)])"

definition int_String :: "int \<Rightarrow> string" where
  "int_String i = (if i < 0 then CHR ''-'' # nat_digits (nat (- i)) else nat_digits (nat i))"

fun join :: "string \<Rightarrow> string list \<Rightarrow> string" where
  "join sep [] = []"
| "join sep [x] = x"
| "join sep (x # y # ys) = x @ sep @ join sep (y # ys)"

text \<open>
  ToString, as \<^verbatim>\<open>String(v)\<close>, a template literal and the \<^verbatim>\<open>Error\<close> constructor apply it.
  An array prints its elements joined by commas, \<^verbatim>\<open>null\<close> and \<^verbatim>\<open>undefined\<close> elements as
  the empty string.
\<close>

fun js_String :: "jsval \<Rightarrow> string" where
  "js_String JUndefined = ''undefined''"
| "js_String JNull = ''null''"
| "js_String (JBool b) = (if b then ''true'' else ''false'')"
| "js_String (JNum n) = int_String n"
| "js_String (JStr s) = s"
| "js_String (JArr vs) =
     join '','' (map (\<lambda>v. if v = JUndefined \<or> v = JNull then [] else js_String v) vs)"
| "js_String (JObj kvs) = ''[object Object]''"

text \<open>
  Property access \<^verbatim>\<open>v.k\<close> for a name \<open>k\<close> that no prototype defines, as
  \<^verbatim>\<open>errorBody.error\<close>: reading a property of \<^verbatim>\<open>null\<close> or \<^verbatim>\<open>undefined\<close> throws a TypeError
  (\<open>None\<close>); an object gives the property's value, or \<^verbatim>\<open>undefined\<close> when it has none of
  that name; a boolean, a number, a string and an array have none.
\<close>

fun get_property :: "jsval \<Rightarrow> string \<Rightarrow> jsval option" where
  "get_property JUndefined k = None"
| "get_property JNull k = None"
| "get_property (JObj kvs) k = (case map_of kvs k of None \<Rightarrow> Some JUndefined | Some v \<Rightarrow> Some v)"
| "get_property v k = Some JUndefined"

subsection \<open>Percent-encoding\<close>

text \<open>
  Strings are sequences of bytes (the UTF-8 form of the JavaScript string).
  \<^verbatim>\<open>encodeURIComponent\<close> keeps the letters, the digits and \<^verbatim>\<open>- _ . ! ~ * ' ( )\<close>, and writes
  every other byte as \<^verbatim>\<open>%XX\<close>. The serializer of \<^verbatim>\<open>URLSearchParams\<close>
  (application/x-www-form-urlencoded) keeps the letters, the digits and \<^verbatim>\<open>* - . _\<close>,
  writes a space as \<^verbatim>\<open>+\<close> and every other byte as \<^verbatim>\<open>%XX\<close>.
\<close>

definition alphanumeric :: "char list" where
  "alphanumeric = ''ABCDEFGHIJKLMNOPQRSTUVWXYZabcdefghijklmnopqrstuvwxyz0123456789''"

definition uri_unreserved :: "char list" where
  "uri_unreserved = alphanumeric @ ''-_.!~*()'' @ [CHR 0x27]"

definition percent_byte :: "char \<Rightarrow> string" where
  "percent_byte c =
     [CHR ''%'', digit_char (of_char c div 16), digit_char (of_char c mod 16)]"

definition encodeURIComponent :: "string \<Rightarrow> string" where
  "encodeURIComponent s =
     concat (map (\<lambda>c. if c \<in> set uri_unreserved then [c] else percent_byte c) s)"

definition form_byte :: "char \<Rightarrow> string" where
  "form_byte c =
     (if c = CHR '' '' then ''+''
      else if c \<in> set (alphanumeric @ ''*-._'') then [c]
      else percent_byte c)"

definition form_urlencode :: "string \<Rightarrow> string" where
  "form_urlencode s = concat (map form_byte s)"

definition URLSearchParams_toString :: "(string \<times> string) list \<Rightarrow> string" where
  "URLSearchParams_toString pairs =
     join ''&'' (map (\<lambda>(k, v). form_urlencode k @ ''='' @ form_urlencode v) pairs)"

subsection \<open>Data model\<close>

text \<open>
  A received timestamp is a string on the wire and a \<^verbatim>\<open>Date\<close> once normalized. A \<^verbatim>\<open>Date\<close>
  holds a time value, the milliseconds since the epoch, or none (an invalid date).
  \<^verbatim>\<open>new Date(v)\<close> parses a string with the platform's \<^verbatim>\<open>Date.parse\<close>, and copies the time
  value of a \<^verbatim>\<open>Date\<close>.
\<close>

datatype timestamp = Wire string | Date "int option"

fun new_Date :: "(string \<Rightarrow> int option) \<Rightarrow> timestamp \<Rightarrow> timestamp" where
  "new_Date parse (Wire s) = Date (parse s)"
| "new_Date parse (Date t) = Date t"

record AttachmentMeta =
  a_id :: string
  a_name :: string
  a_type :: string
  a_size :: int

record EmailSummary =
  s_id :: string
  s_from :: string
  s_subject :: string
  s_textPreview :: string
  s_receivedAt :: timestamp
  s_hasAttachments :: bool

record EmailDetail =
  d_id :: string
  d_from :: string
  d_to :: "string list"
  d_subject :: string
  d_html :: string
  d_text :: string
  d_receivedAt :: timestamp
  d_hasAttachments :: bool
  d_attachments :: "AttachmentMeta list"

record PaginatedEmailList =
  p_data :: "EmailSummary list"
  p_nextCursor :: "string option"
  p_total :: int

text \<open>
  \<^verbatim>\<open>GenerateEmailOptions\<close> is the object as the caller built it: its own keys in
  insertion order, a key given as \<^verbatim>\<open>undefined\<close> present with the value \<open>JUndefined\<close>.
\<close>

type_synonym GenerateEmailOptions = "(string \<times> jsval) list"

record ListEmailsOptions =
  limit :: "int option"
  cursor :: "string option"

record VanishClientOptions =
  opt_apiKey :: "string option"
  opt_timeout :: "int option"

record VanishError =
  message :: string
  statusCode :: "nat option"

text \<open>The response types \<^verbatim>\<open>T\<close> that the operations give to \<^verbatim>\<open>request<T>\<close>.\<close>

record DomainsBody =
  domains :: "string list"

record MailboxBody =
  email :: string

record SuccessBody =
  success :: bool

record DeletedBody =
  deleted :: int

subsection \<open>The platform: fetch, clock and timers\<close>

text \<open>
  What an \<^verbatim>\<open>await\<close> can throw: the \<^verbatim>\<open>DOMException\<close> named \<^verbatim>\<open>AbortError\<close>, which the abort
  signal of the request raises, or any other value, kept as the text \<^verbatim>\<open>String(error)\<close>.
\<close>

datatype js_exception = AbortError | OtherError string

datatype 'a settled = Resolved 'a | Rejected js_exception

text \<open>
  \<^verbatim>\<open>response.json()\<close> resolves to the parsed document. The error path reads it untyped
  (\<^verbatim>\<open>errorBody.error\<close>); the success path takes it for the declared response type
  (\<^verbatim>\<open>as T\<close>, unchecked). A document carries both views.
\<close>

datatype 'a document = Document (untyped: jsval) (typed: 'a)

record http_request =
  url :: string
  http_method :: string
  headers :: "(string \<times> string) list"
  body :: "jsval option" \<comment> \<open>\<open>Some v\<close>: the text \<^verbatim>\<open>JSON.stringify(v)\<close>\<close>
  abort_after :: int \<comment> \<open>delay of the timer that aborts the signal\<close>

record 'a http_response =
  status :: nat
  statusText :: string
  response_headers :: "(string \<times> string) list"
  json :: "'a document settled" \<comment> \<open>\<^verbatim>\<open>await response.json()\<close>\<close>
  arrayBuffer :: "nat list settled" \<comment> \<open>\<^verbatim>\<open>await response.arrayBuffer()\<close>\<close>

definition ok :: "'a http_response \<Rightarrow> bool" where
  "ok response = (200 \<le> status response \<and> status response \<le> 299)"

text \<open>
  The environment answers the \<open>k\<close>-th call of \<^verbatim>\<open>fetch\<close> (it rejects, or resolves to a
  response whose body is read later and may fail then), and says how many milliseconds
  pass until the operation has its result, by how much the \<open>k\<close>-th sleep overshoots its
  delay, and how \<^verbatim>\<open>Date.parse\<close> reads a string. The clock does not run backwards.
\<close>

record 'a env =
  fetch :: "nat \<Rightarrow> http_request \<Rightarrow> 'a http_response settled"
  fetch_ms :: "nat \<Rightarrow> http_request \<Rightarrow> nat"
  sleep_over :: "nat \<Rightarrow> int \<Rightarrow> nat"
  Date_parse :: "string \<Rightarrow> int option"

record world =
  now :: int \<comment> \<open>\<^verbatim>\<open>Date.now()\<close>\<close>
  sent :: "http_request list" \<comment> \<open>the requests given to \<^verbatim>\<open>fetch\<close>, oldest first\<close>
  sleeps :: "int list" \<comment> \<open>the delays slept, oldest first\<close>

definition do_fetch :: "'a env \<Rightarrow> http_request \<Rightarrow> world \<Rightarrow> 'a http_response settled \<times> world" where
  "do_fetch e req s =
     (fetch e (length (sent s)) req,
      s\<lparr>now := now s + int (fetch_ms e (length (sent s)) req), sent := sent s @ [req]\<rparr>)"

text \<open>
  \<^verbatim>\<open>setTimeout\<close> honours a delay from 0 to \<open>2^31 - 1\<close> milliseconds: the timer fires no
  earlier. A delay outside this range is not honoured and the timer may fire at once:
  the delay is a 32-bit integer, Node.js sets a delay above 2147483647 or below 1 to 1 ms,
  a browser wraps it and takes a negative one for 0. What the timer waits beyond the
  honoured delay is the overshoot of the environment.
\<close>

definition timer_delay :: "int \<Rightarrow> int" where
  "timer_delay ms = (if 0 \<le> ms \<and> ms \<le> 2147483647 then ms else 0)"

text \<open>\<^verbatim>\<open>await new Promise((resolve) => setTimeout(resolve, ms))\<close>\<close>

definition sleep :: "'a env \<Rightarrow> int \<Rightarrow> world \<Rightarrow> world" where
  "sleep e ms s =
     s\<lparr>now := now s + timer_delay ms + int (sleep_over e (length (sleeps s)) ms),
       sleeps := sleeps s @ [ms]\<rparr>"

subsection \<open>The client\<close>

record VanishClient =
  baseUrl :: string
  apiKey :: "string option"
  timeout :: int

text \<open>The constructor: one trailing slash is stripped, the timeout defaults to 30000.\<close>

definition strip_trailing_slash :: "string \<Rightarrow> string" where
  "strip_trailing_slash u = (if u \<noteq> [] \<and> last u = CHR ''/'' then butlast u else u)"

definition new_VanishClient :: "string \<Rightarrow> VanishClientOptions \<Rightarrow> VanishClient" where
  "new_VanishClient base options =
     \<lparr>baseUrl = strip_trailing_slash base,
      apiKey = opt_apiKey options,
      timeout = (case opt_timeout options of None \<Rightarrow> 30000 | Some t \<Rightarrow> t)\<rparr>"

definition createClient :: "string \<Rightarrow> VanishClientOptions \<Rightarrow> VanishClient" where
  "createClient base options = new_VanishClient base options"

subsection \<open>The request primitive\<close>

record request_options =
  params :: "(string \<times> jsval) list option"
  req_body :: jsval

definition no_options :: request_options where
  "no_options = \<lparr>params = None, req_body = JUndefined\<rparr>"

definition query_string :: "(string \<times> jsval) list option \<Rightarrow> string" where
  "query_string ps =
     (case ps of
        None \<Rightarrow> []
      | Some entries \<Rightarrow>
          (let filtered = filter (\<lambda>(k, v). v \<noteq> JUndefined) entries
           in if length filtered > 0
              then ''?'' @ URLSearchParams_toString (map (\<lambda>(k, v). (k, js_String v)) filtered)
              else []))"

definition request_url :: "VanishClient \<Rightarrow> string \<Rightarrow> (string \<times> jsval) list option \<Rightarrow> string" where
  "request_url cl path ps = baseUrl cl @ path @ query_string ps"

definition request_headers :: "VanishClient \<Rightarrow> (string \<times> string) list" where
  "request_headers cl =
     [(''Content-Type'', ''application/json'')] @
     (case apiKey cl of
        None \<Rightarrow> []
      | Some k \<Rightarrow> if k \<noteq> [] then [(''Authorization'', ''Bearer '' @ k)] else [])"

definition request_init :: "VanishClient \<Rightarrow> string \<Rightarrow> string \<Rightarrow> request_options \<Rightarrow> http_request" where
  "request_init cl meth path options =
     \<lparr>url = request_url cl path (params options),
      http_method = meth,
      headers = request_headers cl,
      body = (if truthy (req_body options) then Some (req_body options) else None),
      abort_after = timeout cl\<rparr>"

text \<open>
  The inner \<^verbatim>\<open>try\<close> of a response that is not ok: the message is
  \<^verbatim>\<open>errorBody.error || response.statusText\<close>, and the status text when reading the body
  or the property throws.
\<close>

definition error_message :: "'a http_response \<Rightarrow> string" where
  "error_message response =
     (case json response of
        Rejected ex \<Rightarrow> statusText response
      | Resolved errorBody \<Rightarrow>
          (case get_property (untyped errorBody) ''error'' of
             None \<Rightarrow> statusText response
           | Some v \<Rightarrow> if truthy v then js_String v else statusText response))"

text \<open>The outer \<^verbatim>\<open>catch\<close>, for what is not a \<^verbatim>\<open>VanishError\<close>.\<close>

fun outer_catch :: "js_exception \<Rightarrow> VanishError" where
  "outer_catch AbortError = \<lparr>message = ''Request timeout'', statusCode = None\<rparr>"
| "outer_catch (OtherError d) = \<lparr>message = ''Request failed: '' @ d, statusCode = None\<rparr>"

text \<open>
  The implementation of \<^verbatim>\<open>request\<close>. Its last step reads the body: \<open>read\<close> is
  \<^verbatim>\<open>response.json()\<close> taken as \<^verbatim>\<open>T\<close>, or with \<^verbatim>\<open>rawResponse: true\<close> the bytes of
  \<^verbatim>\<open>response.arrayBuffer()\<close> with the response's headers; these are the two overloads.
\<close>

definition request_impl ::
  "('a http_response \<Rightarrow> 'b settled) \<Rightarrow> VanishClient \<Rightarrow> string \<Rightarrow> string \<Rightarrow> request_options \<Rightarrow>
   'a env \<Rightarrow> world \<Rightarrow> (VanishError + 'b) \<times> world" where
  "request_impl read cl meth path options e s =
     (case do_fetch e (request_init cl meth path options) s of
        (Rejected ex, s') \<Rightarrow> (Inl (outer_catch ex), s')
      | (Resolved response, s') \<Rightarrow>
          if \<not> ok response
          then (Inl \<lparr>message = error_message response, statusCode = Some (status response)\<rparr>, s')
          else (case read response of
                  Rejected ex \<Rightarrow> (Inl (outer_catch ex), s')
                | Resolved v \<Rightarrow> (Inr v, s')))"

definition read_json :: "'a http_response \<Rightarrow> 'a settled" where
  "read_json response =
     (case json response of Rejected ex \<Rightarrow> Rejected ex | Resolved d \<Rightarrow> Resolved (typed d))"

definition read_raw :: "'a http_response \<Rightarrow> (nat list \<times> (string \<times> string) list) settled" where
  "read_raw response =
     (case arrayBuffer response of
        Rejected ex \<Rightarrow> Rejected ex
      | Resolved bytes \<Rightarrow> Resolved (bytes, response_headers response))"

definition request ::
  "VanishClient \<Rightarrow> string \<Rightarrow> string \<Rightarrow> request_options \<Rightarrow> 'a env \<Rightarrow> world \<Rightarrow>
   (VanishError + 'a) \<times> world" where
  "request = request_impl read_json"

definition request_raw ::
  "VanishClient \<Rightarrow> string \<Rightarrow> string \<Rightarrow> request_options \<Rightarrow> 'a env \<Rightarrow> world \<Rightarrow>
   (VanishError + nat list \<times> (string \<times> string) list) \<times> world" where
  "request_raw = request_impl read_raw"

subsection \<open>The operations\<close>

definition getDomains :: "VanishClient \<Rightarrow> DomainsBody env \<Rightarrow> world \<Rightarrow> (VanishError + string list) \<times> world" where
  "getDomains cl e s =
     (case request cl ''GET'' ''/domains'' no_options e s of
        (Inl err, s') \<Rightarrow> (Inl err, s')
      | (Inr resp, s') \<Rightarrow> (Inr (domains resp), s'))"

text \<open>\<^verbatim>\<open>Object.keys(options).length > 0 ? options : undefined\<close>\<close>

definition generateEmail ::
  "VanishClient \<Rightarrow> GenerateEmailOptions \<Rightarrow> MailboxBody env \<Rightarrow> world \<Rightarrow> (VanishError + string) \<times> world" where
  "generateEmail cl options e s =
     (case request cl ''POST'' ''/mailbox''
             \<lparr>params = None,
              req_body = (if length (map fst options) > 0 then JObj options else JUndefined)\<rparr> e s of
        (Inl err, s') \<Rightarrow> (Inl err, s')
      | (Inr resp, s') \<Rightarrow> (Inr (email resp), s'))"

definition number_or_undefined :: "int option \<Rightarrow> jsval" where
  "number_or_undefined v = (case v of None \<Rightarrow> JUndefined | Some n \<Rightarrow> JNum n)"

definition string_or_undefined :: "string option \<Rightarrow> jsval" where
  "string_or_undefined v = (case v of None \<Rightarrow> JUndefined | Some x \<Rightarrow> JStr x)"

definition listEmails ::
  "VanishClient \<Rightarrow> string \<Rightarrow> ListEmailsOptions \<Rightarrow> PaginatedEmailList env \<Rightarrow> world \<Rightarrow>
   (VanishError + PaginatedEmailList) \<times> world" where
  "listEmails cl address options e s =
     (case request cl ''GET'' (''/mailbox/'' @ encodeURIComponent address)
             \<lparr>params = Some [(''limit'', number_or_undefined (limit options)),
                             (''cursor'', string_or_undefined (cursor options))],
              req_body = JUndefined\<rparr> e s of
        (Inl err, s') \<Rightarrow> (Inl err, s')
      | (Inr resp, s') \<Rightarrow>
          (Inr \<lparr>p_data = map (\<lambda>m. m\<lparr>s_receivedAt := new_Date (Date_parse e) (s_receivedAt m)\<rparr>) (p_data resp),
                p_nextCursor = p_nextCursor resp,
                p_total = p_total resp\<rparr>, s'))"

definition getEmail :: "VanishClient \<Rightarrow> string \<Rightarrow> EmailDetail env \<Rightarrow> world \<Rightarrow> (VanishError + EmailDetail) \<times> world" where
  "getEmail cl emailId e s =
     (case request cl ''GET'' (''/email/'' @ emailId) no_options e s of
        (Inl err, s') \<Rightarrow> (Inl err, s')
      | (Inr resp, s') \<Rightarrow>
          (Inr (resp\<lparr>d_receivedAt := new_Date (Date_parse e) (d_receivedAt resp)\<rparr>), s'))"

definition getAttachment ::
  "VanishClient \<Rightarrow> string \<Rightarrow> string \<Rightarrow> 'a env \<Rightarrow> world \<Rightarrow>
   (VanishError + nat list \<times> (string \<times> string) list) \<times> world" where
  "getAttachment cl emailId attachmentId e s =
     request_raw cl ''GET'' (''/email/'' @ emailId @ ''/attachments/'' @ attachmentId) no_options e s"

definition deleteEmail :: "VanishClient \<Rightarrow> string \<Rightarrow> SuccessBody env \<Rightarrow> world \<Rightarrow> (VanishError + bool) \<times> world" where
  "deleteEmail cl emailId e s =
     (case request cl ''DELETE'' (''/email/'' @ emailId) no_options e s of
        (Inl err, s') \<Rightarrow> (Inl err, s')
      | (Inr resp, s') \<Rightarrow> (Inr (success resp), s'))"

definition deleteMailbox :: "VanishClient \<Rightarrow> string \<Rightarrow> DeletedBody env \<Rightarrow> world \<Rightarrow> (VanishError + int) \<times> world" where
  "deleteMailbox cl address e s =
     (case request cl ''DELETE'' (''/mailbox/'' @ encodeURIComponent address) no_options e s of
        (Inl err, s') \<Rightarrow> (Inl err, s')
      | (Inr resp, s') \<Rightarrow> (Inr (deleted resp), s'))"

subsection \<open>Polling\<close>

text \<open>
  The loop of \<^verbatim>\<open>pollForEmails\<close>. It need not end (an interval of 0 on a clock that stands
  still), so not returning is the value \<open>None\<close>; a returned \<^verbatim>\<open>null\<close> is \<open>Inr None\<close>.
  The parameters that the source defaults (\<^verbatim>\<open>timeout = 60000\<close>, \<^verbatim>\<open>interval = 5000\<close>,
  \<^verbatim>\<open>initialCount = 0\<close>) are arguments here.
\<close>

partial_function (option) pollForEmails_loop ::
  "VanishClient \<Rightarrow> PaginatedEmailList env \<Rightarrow> string \<Rightarrow> int \<Rightarrow> int \<Rightarrow> int \<Rightarrow> world \<Rightarrow>
   ((VanishError + EmailSummary option) \<times> world) option" where
  "pollForEmails_loop cl e address deadline interval initialCount s =
     (if now s < deadline then
        (case listEmails cl address \<lparr>limit = Some 1, cursor = None\<rparr> e s of
           (Inl err, s') \<Rightarrow> Some (Inl err, s')
         | (Inr result, s') \<Rightarrow>
             if p_total result > initialCount \<and> length (p_data result) > 0
             then Some (Inr (Some (p_data result ! 0)), s')
             else pollForEmails_loop cl e address deadline interval initialCount (sleep e interval s'))
      else Some (Inr None, s))"

declare pollForEmails_loop.simps [code]

definition pollForEmails ::
  "VanishClient \<Rightarrow> string \<Rightarrow> int \<Rightarrow> int \<Rightarrow> int \<Rightarrow> PaginatedEmailList env \<Rightarrow> world \<Rightarrow>
   ((VanishError + EmailSummary option) \<times> world) option" where
  "pollForEmails cl address tmo interval initialCount e s =
     (let deadline = now s + tmo
      in pollForEmails_loop cl e address deadline interval initialCount s)"

subsection \<open>Observations on a run\<close>

text \<open>The requests issued between two states of the world.\<close>

definition issued :: "world \<Rightarrow> world \<Rightarrow> http_request list" where
  "issued s s' = drop (length (sent s)) (sent s')"

definition header :: "string \<Rightarrow> http_request \<Rightarrow> string option" where
  "header name req = map_of (headers req) name"

text \<open>
  The page that the listing endpoint delivers to the \<open>k\<close>-th call of \<^verbatim>\<open>fetch\<close>: the
  document of a response that is ok, and none when the call fails.
\<close>

definition list_reply :: "PaginatedEmailList env \<Rightarrow> nat \<Rightarrow> http_request \<Rightarrow> PaginatedEmailList option" where
  "list_reply e k req =
     (case fetch e k req of
        Rejected ex \<Rightarrow> None
      | Resolved response \<Rightarrow>
          if ok response
          then (case json response of Rejected ex \<Rightarrow> None | Resolved d \<Rightarrow> Some (typed d))
          else None)"

text \<open>The request of \<^verbatim>\<open>listEmails(address, { limit: 1 })\<close>, which a check of the poll sends.\<close>

definition poll_request :: "VanishClient \<Rightarrow> string \<Rightarrow> http_request" where
  "poll_request cl address =
     request_init cl ''GET'' (''/mailbox/'' @ encodeURIComponent address)
       \<lparr>params = Some [(''limit'', JNum 1), (''cursor'', JUndefined)], req_body = JUndefined\<rparr>"

text \<open>
  The world when check \<open>i + 1\<close> of a poll begins, the \<open>i\<close> checks before it having
  each sent the request and slept the interval.
\<close>

fun after_checks :: "'a env \<Rightarrow> http_request \<Rightarrow> int \<Rightarrow> world \<Rightarrow> nat \<Rightarrow> world" where
  "after_checks e req ms s 0 = s"
| "after_checks e req ms s (Suc i) = sleep e ms (snd (do_fetch e req (after_checks e req ms s i)))"

text \<open>
  The instant that a string in the date-time format of ECMAScript,
  \<^verbatim>\<open>YYYY-MM-DDTHH:mm:ss.sssZ\<close>, denotes, in milliseconds since the epoch; a conforming
  \<^verbatim>\<open>Date.parse\<close> returns it.
\<close>

definition digit_value :: "char \<Rightarrow> nat option" where
  "digit_value c =
     (if (48::nat) \<le> of_char c \<and> of_char c \<le> (57::nat) then Some (of_char c - 48) else None)"

fun number_value :: "string \<Rightarrow> nat option" where
  "number_value [] = None"
| "number_value cs =
     fold (\<lambda>c acc. case (acc, digit_value c) of (Some n, Some d) \<Rightarrow> Some (10 * n + d) | _ \<Rightarrow> None)
       cs (Some 0)"

definition leap_year :: "nat \<Rightarrow> bool" where
  "leap_year y = (y mod 4 = 0 \<and> (y mod 100 \<noteq> 0 \<or> y mod 400 = 0))"

definition days_in_month :: "nat \<Rightarrow> nat \<Rightarrow> nat" where
  "days_in_month y m =
     (if m = 2 then (if leap_year y then 29 else 28)
      else if m \<in> {4, 6, 9, 11} then 30 else 31)"

definition days_from_civil :: "nat \<Rightarrow> nat \<Rightarrow> nat \<Rightarrow> int" where
  "days_from_civil y m d =
     (let y' = int y - (if m \<le> 2 then 1 else 0);
          era = y' div 400;
          yoe = y' - era * 400;
          doy = (153 * (int m + (if m > 2 then - 3 else 9)) + 2) div 5 + int d - 1;
          doe = yoe * 365 + yoe div 4 - yoe div 100 + doy
      in era * 146097 + doe - 719468)"

definition iso_instant :: "string \<Rightarrow> int option" where
  "iso_instant t =
     (if length t = 24 \<and> t ! 4 = CHR ''-'' \<and> t ! 7 = CHR ''-'' \<and> t ! 10 = CHR ''T'' \<and>
         t ! 13 = CHR '':'' \<and> t ! 16 = CHR '':'' \<and> t ! 19 = CHR ''.'' \<and> t ! 23 = CHR ''Z''
      then
        (case (number_value (take 4 t), number_value (take 2 (drop 5 t)),
               number_value (take 2 (drop 8 t)), number_value (take 2 (drop 11 t)),
               number_value (take 2 (drop 14 t)), number_value (take 2 (drop 17 t)),
               number_value (take 3 (drop 20 t))) of
           (Some y, Some m, Some d, Some hh, Some mm, Some ss, Some ms) \<Rightarrow>
             if 1 \<le> m \<and> m \<le> 12 \<and> 1 \<le> d \<and> d \<le> days_in_month y m \<and> hh \<le> 23 \<and> mm \<le> 59 \<and> ss \<le> 59
             then Some ((((days_from_civil y m d * 24 + int hh) * 60 + int mm) * 60 + int ss) * 1000 + int ms)
             else None
         | _ \<Rightarrow> None)
      else None)"

text \<open>
  Reading a query string back, as the receiving side does: the text after the \<^verbatim>\<open>?\<close> is
  split at each \<^verbatim>\<open>&\<close>, every part at its first \<^verbatim>\<open>=\<close>, and both sides are decoded
  (\<^verbatim>\<open>+\<close> is a space, \<^verbatim>\<open>%XX\<close> a byte).
\<close>

definition hex_value :: "char \<Rightarrow> nat" where
  "hex_value c = (if (of_char c :: nat) \<le> 57 then of_char c - 48 else of_char c - 55)"

fun form_urldecode :: "string \<Rightarrow> string" where
  "form_urldecode [] = []"
| "form_urldecode (c # cs) =
     (if c = CHR ''+'' then CHR '' '' # form_urldecode cs
      else if c = CHR ''%'' \<and> 2 \<le> length cs
      then char_of (16 * hex_value (cs ! 0) + hex_value (cs ! 1)) # form_urldecode (drop 2 cs)
      else c # form_urldecode cs)"

fun split_on :: "char \<Rightarrow> string \<Rightarrow> string list" where
  "split_on sep [] = [[]]"
| "split_on sep (c # cs) =
     (if c = sep then [] # split_on sep cs
      else (case split_on sep cs of [] \<Rightarrow> [[c]] | part # parts \<Rightarrow> (c # part) # parts))"

definition parse_query :: "string \<Rightarrow> (string \<times> string) list" where
  "parse_query q =
     (if q = [] then []
      else map (\<lambda>part. (form_urldecode (takeWhile (\<lambda>c. c \<noteq> CHR ''='') part),
                        form_urldecode (drop 1 (dropWhile (\<lambda>c. c \<noteq> CHR ''='') part))))
             (split_on CHR ''&'' (drop 1 q)))"

subsection \<open>A scripted platform\<close>

text \<open>
  A platform for concrete runs: the \<open>k\<close>-th call of \<^verbatim>\<open>fetch\<close> settles as scripted after
  100 ms, timers fire on time and as those of Node.js do (after 1 ms for a delay outside
  the range from 1 to 2147483647), \<^verbatim>\<open>Date.parse\<close> reads the ECMAScript format.
\<close>

definition scripted :: "(nat \<Rightarrow> 'a http_response settled) \<Rightarrow> 'a env" where
  "scripted replies =
     \<lparr>fetch = (\<lambda>k req. replies k), fetch_ms = (\<lambda>k req. 100),
      sleep_over = (\<lambda>k ms. if 1 \<le> ms \<and> ms \<le> 2147483647 then 0 else 1),
      Date_parse = iso_instant\<rparr>"

definition json_response :: "nat \<Rightarrow> string \<Rightarrow> jsval \<Rightarrow> 'a \<Rightarrow> 'a http_response" where
  "json_response st reason j v =
     \<lparr>status = st, statusText = reason,
      response_headers = [(''content-type'', ''application/json'')],
      json = Resolved (Document j v),
      arrayBuffer = Rejected (OtherError ''TypeError: Body is unusable'')\<rparr>"

definition midnight :: world where
  "midnight = \<lparr>now = 1704067200000, sent = [], sleeps = []\<rparr>"

definition demo_client :: VanishClient where
  "demo_client = new_VanishClient ''https://api.vanish.host/'' \<lparr>opt_apiKey = Some ''k3y'', opt_timeout = None\<rparr>"

definition demo_summary :: EmailSummary where
  "demo_summary =
     \<lparr>s_id = ''m1'', s_from = ''a@b.c'', s_subject = ''Hi'', s_textPreview = ''Hello'',
      s_receivedAt = Wire ''2024-01-01T00:00:00.000Z'', s_hasAttachments = False\<rparr>"

text \<open>
  The documents of the wire, for responses that are ok and whose two views agree. The
  typed view of a response that is not ok is never read.
\<close>

definition summary_json :: "EmailSummary \<Rightarrow> jsval" where
  "summary_json m =
     JObj [(''id'', JStr (s_id m)), (''from'', JStr (s_from m)), (''subject'', JStr (s_subject m)),
           (''textPreview'', JStr (s_textPreview m)),
           (''receivedAt'', case s_receivedAt m of Wire w \<Rightarrow> JStr w | Date t \<Rightarrow> JNull),
           (''hasAttachments'', JBool (s_hasAttachments m))]"

definition attachment_json :: "AttachmentMeta \<Rightarrow> jsval" where
  "attachment_json a =
     JObj [(''id'', JStr (a_id a)), (''name'', JStr (a_name a)), (''type'', JStr (a_type a)),
           (''size'', JNum (a_size a))]"

definition detail_json :: "EmailDetail \<Rightarrow> jsval" where
  "detail_json d =
     JObj [(''id'', JStr (d_id d)), (''from'', JStr (d_from d)), (''to'', JArr (map JStr (d_to d))),
           (''subject'', JStr (d_subject d)), (''html'', JStr (d_html d)), (''text'', JStr (d_text d)),
           (''receivedAt'', case d_receivedAt d of Wire w \<Rightarrow> JStr w | Date t \<Rightarrow> JNull),
           (''hasAttachments'', JBool (d_hasAttachments d)),
           (''attachments'', JArr (map attachment_json (d_attachments d)))]"

definition page_response :: "PaginatedEmailList \<Rightarrow> PaginatedEmailList http_response" where
  "page_response page =
     json_response 200 ''OK''
       (JObj [(''data'', JArr (map summary_json (p_data page))),
              (''nextCursor'', case p_nextCursor page of None \<Rightarrow> JNull | Some c \<Rightarrow> JStr c),
              (''total'', JNum (p_total page))])
       page"

definition detail_response :: "EmailDetail \<Rightarrow> EmailDetail http_response" where
  "detail_response d = json_response 200 ''OK'' (detail_json d) d"


definition domains_response :: "string list \<Rightarrow> DomainsBody http_response" where
  "domains_response ds =
     json_response 200 ''OK'' (JObj [(''domains'', JArr (map JStr ds))]) \<lparr>domains = ds\<rparr>"

definition demo_page :: "int \<Rightarrow> EmailSummary list \<Rightarrow> PaginatedEmailList http_response settled" where
  "demo_page n items =
     Resolved (page_response \<lparr>p_data = items, p_nextCursor = None, p_total = n\<rparr>)"

definition demo_listing :: "PaginatedEmailList env" where
  "demo_listing = scripted (\<lambda>k. if k < 2 then demo_page 0 [] else demo_page 1 [demo_summary])"


definition failing_listing :: "PaginatedEmailList env" where
  "failing_listing =
     scripted (\<lambda>k. if k < 2 then demo_page 0 []
                    else Resolved (json_response 500 ''Internal Server Error''
                           (JObj [(''error'', JStr ''boom'')])
                           \<lparr>p_data = [], p_nextCursor = None, p_total = 0\<rparr>))"

text \<open>A platform on which every call gets the same response.\<close>

definition answering :: "'a http_response \<Rightarrow> 'a env" where
  "answering response = scripted (\<lambda>k. Resolved response)"



definition demo_detail :: EmailDetail where
  "demo_detail =
     \<lparr>d_id = ''m1'', d_from = ''a@b.c'', d_to = [''x@vanish.host''], d_subject = ''Hi'',
      d_html = ''<p>Hello</p>'', d_text = ''Hello'',
      d_receivedAt = Wire ''2024-01-01T00:00:00.000Z'', d_hasAttachments = True,
      d_attachments = [\<lparr>a_id = ''a1'', a_name = ''f.txt'', a_type = ''text/plain'', a_size = 5\<rparr>]\<rparr>"

section \<open>Properties\<close>

subsection \<open>The effects of a request, of a sleep and of a sequence of checks\<close>

lemma request_impl_world:
  "snd (request_impl read cl m p opts e s) = snd (do_fetch e (request_init cl m p opts) s)"
  by (simp add: request_impl_def split: settled.splits prod.splits)

lemma snd_case_result:
  "snd (case p of (Inl err, s') \<Rightarrow> (f err, s') | (Inr r, s') \<Rightarrow> (g r, s')) = snd p"
  by (cases p; cases "fst p") auto

lemma sent_do_fetch: "sent (snd (do_fetch e req s)) = sent s @ [req]"
  by (simp add: do_fetch_def)

lemma sleeps_do_fetch: "sleeps (snd (do_fetch e req s)) = sleeps s"
  by (simp add: do_fetch_def)

lemma now_do_fetch: "now s \<le> now (snd (do_fetch e req s))"
  by (simp add: do_fetch_def)

lemma sent_sleep: "sent (sleep e ms s) = sent s"
  by (simp add: sleep_def)

lemma sleeps_sleep: "sleeps (sleep e ms s) = sleeps s @ [ms]"
  by (simp add: sleep_def)

lemma now_sleep: "now s + timer_delay ms \<le> now (sleep e ms s)"
  by (simp add: sleep_def)

lemma now_sleep_mono: "now s \<le> now (sleep e ms s)"
  by (simp add: sleep_def timer_delay_def)

lemma sent_after_checks: "sent (after_checks e req ms s n) = sent s @ replicate n req"
  by (induction n) (simp_all add: sent_sleep sent_do_fetch replicate_append_same)

lemma sleeps_after_checks: "sleeps (after_checks e req ms s n) = sleeps s @ replicate n ms"
  by (induction n) (simp_all add: sleeps_sleep sleeps_do_fetch replicate_append_same)

lemma now_after_checks_Suc:
  "now (after_checks e req ms s n) + timer_delay ms \<le> now (after_checks e req ms s (Suc n))"
  using now_sleep [of "snd (do_fetch e req (after_checks e req ms s n))" ms e]
        now_do_fetch [of "after_checks e req ms s n" e req]
  by simp

lemma now_after_checks_step:
  "now (after_checks e req ms s n) \<le> now (after_checks e req ms s (Suc n))"
  using now_sleep_mono [of "snd (do_fetch e req (after_checks e req ms s n))" e ms]
        now_do_fetch [of "after_checks e req ms s n" e req]
  by simp

lemma now_after_checks_mono:
  "i \<le> n \<Longrightarrow> now (after_checks e req ms s i) \<le> now (after_checks e req ms s n)"
proof (induction n)
  case 0
  then show ?case by simp
next
  case (Suc n)
  show ?case
  proof (cases "i = Suc n")
    case True
    then show ?thesis by simp
  next
    case False
    with Suc.prems have "i \<le> n" by simp
    with Suc.IH have "now (after_checks e req ms s i) \<le> now (after_checks e req ms s n)" .
    also have "\<dots> \<le> now (after_checks e req ms s (Suc n))" by (rule now_after_checks_step)
    finally show ?thesis .
  qed
qed

lemma listEmails_poll:
  assumes "list_reply e (length (sent s)) (poll_request cl address) = Some page"
  shows "listEmails cl address \<lparr>limit = Some 1, cursor = None\<rparr> e s =
           (Inr \<lparr>p_data = map (\<lambda>m. m\<lparr>s_receivedAt := new_Date (Date_parse e) (s_receivedAt m)\<rparr>) (p_data page),
                 p_nextCursor = p_nextCursor page,
                 p_total = p_total page\<rparr>,
            snd (do_fetch e (poll_request cl address) s))"
  using assms
  by (auto simp: listEmails_def request_def request_impl_def list_reply_def poll_request_def
        number_or_undefined_def string_or_undefined_def do_fetch_def read_json_def
      split: settled.splits if_splits)


lemma poll_error:
  assumes "now s < deadline"
    and "listEmails cl address \<lparr>limit = Some 1, cursor = None\<rparr> e s = (Inl err, s')"
  shows "pollForEmails_loop cl e address deadline ms C s = Some (Inl err, s')"
  by (subst pollForEmails_loop.simps) (simp add: assms)

lemma poll_found:
  assumes "now s < deadline"
    and "list_reply e (length (sent s)) (poll_request cl address) = Some page"
    and "C < p_total page" and "p_data page \<noteq> []"
  shows "pollForEmails_loop cl e address deadline ms C s =
           Some (Inr (Some ((hd (p_data page))\<lparr>s_receivedAt :=
                    new_Date (Date_parse e) (s_receivedAt (hd (p_data page)))\<rparr>)),
                 snd (do_fetch e (poll_request cl address) s))"
  by (subst pollForEmails_loop.simps) (simp add: assms listEmails_poll hd_conv_nth)

lemma poll_continue:
  assumes "now s < deadline"
    and "list_reply e (length (sent s)) (poll_request cl address) = Some page"
    and "\<not> (C < p_total page \<and> p_data page \<noteq> [])"
  shows "pollForEmails_loop cl e address deadline ms C s =
           pollForEmails_loop cl e address deadline ms C
             (sleep e ms (snd (do_fetch e (poll_request cl address) s)))"
  using assms(3) by (subst pollForEmails_loop.simps) (auto simp add: assms(1,2) listEmails_poll)

lemma poll_skip:
  assumes "\<forall>i<n. \<exists>page. list_reply e (length (sent s) + i) (poll_request cl address) = Some page \<and>
             \<not> (C < p_total page \<and> p_data page \<noteq> [])"
    and "\<forall>i<n. now (after_checks e (poll_request cl address) ms s i) < deadline"
  shows "pollForEmails_loop cl e address deadline ms C s =
           pollForEmails_loop cl e address deadline ms C (after_checks e (poll_request cl address) ms s n)"
  using assms
proof (induction n)
  case 0
  then show ?case by simp
next
  case (Suc n)
  let ?sn = "after_checks e (poll_request cl address) ms s n"
  from Suc.prems have "pollForEmails_loop cl e address deadline ms C s =
      pollForEmails_loop cl e address deadline ms C ?sn"
    by (intro Suc.IH) auto
  moreover from Suc.prems(2) have "now ?sn < deadline" by simp
  moreover from Suc.prems(1) obtain page where
    "list_reply e (length (sent ?sn)) (poll_request cl address) = Some page"
    "\<not> (C < p_total page \<and> p_data page \<noteq> [])"
    by (auto simp: sent_after_checks)
  ultimately show ?case
    using poll_continue [of ?sn deadline e cl address page C ms] by simp
qed

subsection \<open>The scripted platform\<close>

lemma midnight_simps:
  "now midnight = 1704067200000" "sent midnight = []" "sleeps midnight = []"
  by (simp_all add: midnight_def)

lemma demo_client_simps:
  "baseUrl demo_client = ''https://api.vanish.host''" "apiKey demo_client = Some ''k3y''"
  "timeout demo_client = 30000"
  by (simp_all add: demo_client_def new_VanishClient_def strip_trailing_slash_def)

lemma Date_parse_scripted: "Date_parse (scripted replies) = iso_instant"
  by (simp add: scripted_def)

lemma list_reply_demo_listing: "list_reply demo_listing k req = Some (if k < 2 then \<lparr>p_data = [], p_nextCursor = None, p_total = 0\<rparr> else \<lparr>p_data = [demo_summary], p_nextCursor = None, p_total = 1\<rparr>)"
  by (simp add: list_reply_def demo_listing_def scripted_def demo_page_def page_response_def json_response_def
      ok_def)

lemma now_demo_listing: "now (after_checks demo_listing req 300 midnight 2) = 1704067200800"
  by (simp add: numeral_2_eq_2 sleep_def timer_delay_def do_fetch_def demo_listing_def scripted_def
      midnight_def)

subsection \<open>Polling: a new message\<close>

lemma url_poll_request:
  "url (poll_request cl address) = baseUrl cl @ ''/mailbox/'' @ encodeURIComponent address @ ''?limit=1''"
  by (simp add: poll_request_def request_init_def request_url_def query_string_def
      URLSearchParams_toString_def form_urlencode_def form_byte_def alphanumeric_def int_String_def
      digit_char_def)

text \<open>
  C1. Let the listing endpoint answer the first \<open>N\<close> checks of a poll with a page whose
  total is the baseline count \<open>C\<close> (with any items), and check \<open>N + 1\<close> with a page
  whose total is \<open>C + 1\<close> and that has an item; let check \<open>N + 1\<close> begin before the
  deadline \<open>now + T\<close>. Then \<^verbatim>\<open>pollForEmails(address, T, I, C)\<close> returns, and what it
  returns is the first item of that page, its timestamp normalized as \<^verbatim>\<open>listEmails\<close>
  does; it has issued exactly \<open>N + 1\<close> requests, each the request of
  \<^verbatim>\<open>listEmails(address, { limit: 1 })\<close>. That \<open>T\<close> is positive follows from the
  hypothesis on the deadline; that \<open>I\<close> is positive is not needed.
\<close>

theorem poll_returns_new_message:
  assumes "\<forall>i<N. \<exists>page. list_reply e (length (sent s) + i) (poll_request cl address) = Some page \<and>
             p_total page = C"
    and "list_reply e (length (sent s) + N) (poll_request cl address) = Some page"
    and "p_total page = C + 1" and "p_data page \<noteq> []"
    and "now (after_checks e (poll_request cl address) I s N) < now s + T"
  shows "\<exists>s'. pollForEmails cl address T I C e s =
           Some (Inr (Some ((hd (p_data page))\<lparr>s_receivedAt :=
                    new_Date (Date_parse e) (s_receivedAt (hd (p_data page)))\<rparr>)), s') \<and>
         issued s s' = replicate (N + 1) (poll_request cl address) \<and>
         url (poll_request cl address) =
           baseUrl cl @ ''/mailbox/'' @ encodeURIComponent address @ ''?limit=1''"
proof -
  let ?req = "poll_request cl address"
  let ?sN = "after_checks e ?req I s N"
  have early: "\<forall>i<N. now (after_checks e ?req I s i) < now s + T"
  proof (intro allI impI)
    fix i assume "i < N"
    then have "now (after_checks e ?req I s i) \<le> now ?sN"
      by (intro now_after_checks_mono) simp
    with assms(5) show "now (after_checks e ?req I s i) < now s + T" by simp
  qed
  have none: "\<forall>i<N. \<exists>page. list_reply e (length (sent s) + i) ?req = Some page \<and>
      \<not> (C < p_total page \<and> p_data page \<noteq> [])"
    using assms(1) by auto
  have "pollForEmails_loop cl e address (now s + T) I C s =
      pollForEmails_loop cl e address (now s + T) I C ?sN"
    using none early by (rule poll_skip)
  also have "\<dots> = Some (Inr (Some ((hd (p_data page))\<lparr>s_receivedAt :=
                    new_Date (Date_parse e) (s_receivedAt (hd (p_data page)))\<rparr>)),
                 snd (do_fetch e ?req ?sN))"
    using assms(2,3,4,5) by (intro poll_found) (simp_all add: sent_after_checks)
  finally have "pollForEmails cl address T I C e s =
      Some (Inr (Some ((hd (p_data page))\<lparr>s_receivedAt :=
                    new_Date (Date_parse e) (s_receivedAt (hd (p_data page)))\<rparr>)),
            snd (do_fetch e ?req ?sN))"
    by (simp add: pollForEmails_def)
  moreover have "issued s (snd (do_fetch e ?req ?sN)) = replicate (N + 1) ?req"
    by (simp add: issued_def sent_do_fetch sent_after_checks replicate_append_same)
  ultimately show ?thesis
    using url_poll_request by blast
qed

theorem poll_returns_new_message_witness:
  "list_reply demo_listing 0 (poll_request demo_client ''x@y.z'') =
     Some \<lparr>p_data = [], p_nextCursor = None, p_total = 0\<rparr> \<and>
   list_reply demo_listing 1 (poll_request demo_client ''x@y.z'') =
     Some \<lparr>p_data = [], p_nextCursor = None, p_total = 0\<rparr> \<and>
   list_reply demo_listing 2 (poll_request demo_client ''x@y.z'') =
     Some \<lparr>p_data = [demo_summary], p_nextCursor = None, p_total = 0 + 1\<rparr> \<and>
   now (after_checks demo_listing (poll_request demo_client ''x@y.z'') 300 midnight 2) < now midnight + 1000 \<and>
   (\<exists>s'. pollForEmails demo_client ''x@y.z'' 1000 300 0 demo_listing midnight =
       Some (Inr (Some (demo_summary\<lparr>s_receivedAt := Date (Some 1704067200000)\<rparr>)), s') \<and>
     issued midnight s' = replicate 3 (poll_request demo_client ''x@y.z'') \<and>
     url (poll_request demo_client ''x@y.z'') = ''https://api.vanish.host/mailbox/x%40y.z?limit=1'')"
proof -
  let ?req = "poll_request demo_client ''x@y.z''"
  let ?page = "\<lparr>p_data = [demo_summary], p_nextCursor = None, p_total = 0 + 1\<rparr>"
  have h1: "\<forall>i<2. \<exists>page. list_reply demo_listing (length (sent midnight) + i) ?req = Some page \<and>
      p_total page = 0"
    by (simp add: list_reply_demo_listing midnight_simps)
  have h2: "list_reply demo_listing (length (sent midnight) + 2) ?req = Some ?page"
    by (simp add: list_reply_demo_listing midnight_simps)
  have h5: "now (after_checks demo_listing ?req 300 midnight 2) < now midnight + 1000"
    by (simp add: now_demo_listing midnight_simps)
  have enc: "encodeURIComponent ''x@y.z'' = ''x%40y.z''"
    by (simp add: encodeURIComponent_def uri_unreserved_def alphanumeric_def percent_byte_def
        digit_char_def)
  have ts: "iso_instant ''2024-01-01T00:00:00.000Z'' = Some 1704067200000"
    by (simp add: iso_instant_def digit_value_def days_in_month_def days_from_civil_def)
  from poll_returns_new_message [OF h1 h2 _ _ h5]
  show ?thesis
    by (simp add: list_reply_demo_listing now_demo_listing midnight_simps enc ts demo_client_simps demo_summary_def
        Date_parse_scripted [of "\<lambda>k. if k < 2 then demo_page 0 [] else demo_page 1 [demo_summary]", folded demo_listing_def])
qed

subsection \<open>Polling: exhaustion\<close>






subsection \<open>Polling: errors\<close>

lemma list_reply_failing_listing:
  "k < 2 \<Longrightarrow> list_reply failing_listing k req = Some \<lparr>p_data = [], p_nextCursor = None, p_total = 0\<rparr>"
  by (simp add: list_reply_def failing_listing_def scripted_def demo_page_def page_response_def json_response_def
      ok_def)

lemma now_failing_listing: "now (after_checks failing_listing req 300 midnight 2) = 1704067200800"
  by (simp add: numeral_2_eq_2 sleep_def timer_delay_def do_fetch_def failing_listing_def scripted_def
      midnight_def)

lemma listEmails_failing_listing:
  "length (sent s) = 2 \<Longrightarrow>
   fst (listEmails cl address options failing_listing s) =
     Inl \<lparr>message = ''boom'', statusCode = Some 500\<rparr>"
  by (simp add: listEmails_def request_def request_impl_def do_fetch_def failing_listing_def
      scripted_def json_response_def ok_def error_message_def)

text \<open>
  C6. Let the first \<open>n\<close> checks of a poll find no new message, let check \<open>n + 1\<close> begin
  before the deadline, and let its call of \<^verbatim>\<open>listEmails\<close> raise an error. Then
  \<^verbatim>\<open>pollForEmails\<close> raises that error, in the world that the failing call left: the
  poll has issued the \<open>n + 1\<close> requests of its \<open>n + 1\<close> calls and no other, it has slept
  \<open>n\<close> times and not again after the failure, and its result is the error, not \<^verbatim>\<open>null\<close>.
  Every call that a poll makes is check \<open>n + 1\<close> for some \<open>n\<close>, after \<open>n\<close> checks
  that found nothing.
\<close>

theorem poll_propagates_error:
  assumes "\<forall>i<n. \<exists>page. list_reply e (length (sent s) + i) (poll_request cl address) = Some page \<and>
             \<not> (C < p_total page \<and> p_data page \<noteq> [])"
    and "now (after_checks e (poll_request cl address) I s n) < now s + T"
    and "listEmails cl address \<lparr>limit = Some 1, cursor = None\<rparr> e
           (after_checks e (poll_request cl address) I s n) = (Inl err, s')"
  shows "pollForEmails cl address T I C e s = Some (Inl err, s') \<and>
         issued s s' = replicate (n + 1) (poll_request cl address) \<and>
         sleeps s' = sleeps s @ replicate n I"
proof -
  let ?req = "poll_request cl address"
  let ?sn = "after_checks e ?req I s n"
  have early: "\<forall>i<n. now (after_checks e ?req I s i) < now s + T"
  proof (intro allI impI)
    fix i assume "i < n"
    then have "now (after_checks e ?req I s i) \<le> now ?sn"
      by (intro now_after_checks_mono) simp
    with assms(2) show "now (after_checks e ?req I s i) < now s + T" by simp
  qed
  have "pollForEmails_loop cl e address (now s + T) I C s =
      pollForEmails_loop cl e address (now s + T) I C ?sn"
    using assms(1) early by (rule poll_skip)
  also have "\<dots> = Some (Inl err, s')"
    using assms(2,3) by (rule poll_error)
  finally have result: "pollForEmails cl address T I C e s = Some (Inl err, s')"
    by (simp add: pollForEmails_def)
  have "s' = snd (listEmails cl address \<lparr>limit = Some 1, cursor = None\<rparr> e ?sn)"
    using assms(3) by simp
  then have world: "s' = snd (do_fetch e ?req ?sn)"
    by (simp add: listEmails_def request_def snd_case_result request_impl_world poll_request_def
        number_or_undefined_def string_or_undefined_def)
  have "issued s s' = replicate (n + 1) ?req"
    by (simp add: world issued_def sent_do_fetch sent_after_checks replicate_append_same)
  moreover have "sleeps s' = sleeps s @ replicate n I"
    by (simp add: world sleeps_do_fetch sleeps_after_checks)
  ultimately show ?thesis using result by simp
qed

theorem poll_propagates_error_witness:
  "list_reply failing_listing 0 (poll_request demo_client ''x@y.z'') =
     Some \<lparr>p_data = [], p_nextCursor = None, p_total = 0\<rparr> \<and>
   list_reply failing_listing 1 (poll_request demo_client ''x@y.z'') =
     Some \<lparr>p_data = [], p_nextCursor = None, p_total = 0\<rparr> \<and>
   now (after_checks failing_listing (poll_request demo_client ''x@y.z'') 300 midnight 2)
     < now midnight + 1000 \<and>
   fst (listEmails demo_client ''x@y.z'' \<lparr>limit = Some 1, cursor = None\<rparr> failing_listing
          (after_checks failing_listing (poll_request demo_client ''x@y.z'') 300 midnight 2)) =
     Inl \<lparr>message = ''boom'', statusCode = Some 500\<rparr> \<and>
   (\<exists>s'. pollForEmails demo_client ''x@y.z'' 1000 300 0 failing_listing midnight =
       Some (Inl \<lparr>message = ''boom'', statusCode = Some 500\<rparr>, s') \<and>
     issued midnight s' = replicate 3 (poll_request demo_client ''x@y.z'') \<and>
     sleeps s' = [300, 300])"
proof -
  let ?req = "poll_request demo_client ''x@y.z''"
  let ?s2 = "after_checks failing_listing ?req 300 midnight 2"
  let ?call = "listEmails demo_client ''x@y.z'' \<lparr>limit = Some 1, cursor = None\<rparr> failing_listing ?s2"
  have h1: "\<forall>i<2. \<exists>page. list_reply failing_listing (length (sent midnight) + i) ?req = Some page \<and>
      \<not> (0 < p_total page \<and> p_data page \<noteq> [])"
    by (simp add: list_reply_failing_listing midnight_simps)
  have h2: "now ?s2 < now midnight + 1000"
    by (simp add: now_failing_listing midnight_simps)
  have raised: "fst ?call = Inl \<lparr>message = ''boom'', statusCode = Some 500\<rparr>"
    by (rule listEmails_failing_listing) (simp add: sent_after_checks midnight_simps)
  then have h3: "?call = (Inl \<lparr>message = ''boom'', statusCode = Some 500\<rparr>, snd ?call)"
    by (metis prod.collapse)
  from poll_propagates_error [OF h1 h2 h3] have
    "pollForEmails demo_client ''x@y.z'' 1000 300 0 failing_listing midnight =
       Some (Inl \<lparr>message = ''boom'', statusCode = Some 500\<rparr>, snd ?call) \<and>
     issued midnight (snd ?call) = replicate 3 ?req \<and> sleeps (snd ?call) = [300, 300]"
    by (simp add: midnight_simps numeral_2_eq_2 numeral_3_eq_3)
  then have "\<exists>s'. pollForEmails demo_client ''x@y.z'' 1000 300 0 failing_listing midnight =
       Some (Inl \<lparr>message = ''boom'', statusCode = Some 500\<rparr>, s') \<and>
     issued midnight s' = replicate 3 ?req \<and> sleeps s' = [300, 300]"
    by blast
  with h2 raised show ?thesis
    by (simp add: list_reply_failing_listing)
qed

subsection \<open>The outcomes of a request\<close>

lemma fetch_answering: "fetch (answering response) k req = Resolved response"
  by (simp add: answering_def scripted_def)











subsection \<open>The requests that the operations issue\<close>

lemma listEmails_poll_world:
  "snd (listEmails cl address \<lparr>limit = Some 1, cursor = None\<rparr> e s) =
     snd (do_fetch e (poll_request cl address) s)"
  by (simp add: listEmails_def request_def snd_case_result request_impl_world poll_request_def
      number_or_undefined_def string_or_undefined_def)

lemma poll_sent:
  "pollForEmails_loop cl e address deadline ms C s = Some y \<Longrightarrow>
   \<exists>n. sent (snd y) = sent s @ replicate n (poll_request cl address)"
proof (induction cl e address deadline ms C s y rule: pollForEmails_loop.raw_induct [rotated 1, consumes 1])
  case (1 loop cl e address deadline ms C s y)
  let ?call = "listEmails cl address \<lparr>limit = Some 1, cursor = None\<rparr> e s"
  let ?s1 = "snd (do_fetch e (poll_request cl address) s)"
  have s1: "snd ?call = ?s1" by (rule listEmails_poll_world)
  have one: "sent ?s1 = sent s @ replicate 1 (poll_request cl address)"
    by (simp add: sent_do_fetch)
  show ?case
  proof (cases "now s < deadline")
    case False
    with 1(2) have "y = (Inr None, s)" by simp
    then have "sent (snd y) = sent s @ replicate 0 (poll_request cl address)" by simp
    then show ?thesis by blast
  next
    case True
    show ?thesis
    proof (cases "fst ?call")
      case (Inl err)
      then have "?call = (Inl err, ?s1)" using s1 by (metis prod.collapse)
      with 1(2) True have "y = (Inl err, ?s1)" by simp
      with one show ?thesis by (metis snd_conv)
    next
      case (Inr result)
      then have call: "?call = (Inr result, ?s1)" using s1 by (metis prod.collapse)
      show ?thesis
      proof (cases "C < p_total result \<and> 0 < length (p_data result)")
        case True
        with 1(2) \<open>now s < deadline\<close> call have "y = (Inr (Some (p_data result ! 0)), ?s1)" by simp
        with one show ?thesis by (metis snd_conv)
      next
        case False
        with 1(2) \<open>now s < deadline\<close> call have "loop cl e address deadline ms C (sleep e ms ?s1) = Some y"
          by auto
        from 1(1) [OF this] obtain n where
          "sent (snd y) = sent (sleep e ms ?s1) @ replicate n (poll_request cl address)" by blast
        then have "sent (snd y) = sent s @ replicate (Suc n) (poll_request cl address)"
          by (simp add: sent_sleep sent_do_fetch)
        then show ?thesis by blast
      qed
    qed
  qed
qed

lemma issued_getDomains:
  "issued s (snd (getDomains cl e s)) = [request_init cl ''GET'' ''/domains'' no_options]"
  by (simp add: getDomains_def request_def snd_case_result request_impl_world issued_def sent_do_fetch)

lemma issued_generateEmail:
  "issued s (snd (generateEmail cl options e s)) =
     [request_init cl ''POST'' ''/mailbox''
        \<lparr>params = None, req_body = (if options = [] then JUndefined else JObj options)\<rparr>]"
  by (simp add: generateEmail_def request_def snd_case_result request_impl_world issued_def sent_do_fetch)

lemma issued_listEmails:
  "issued s (snd (listEmails cl address options e s)) =
     [request_init cl ''GET'' (''/mailbox/'' @ encodeURIComponent address)
        \<lparr>params = Some [(''limit'', number_or_undefined (limit options)),
                        (''cursor'', string_or_undefined (cursor options))],
         req_body = JUndefined\<rparr>]"
  by (simp add: listEmails_def request_def snd_case_result request_impl_world issued_def sent_do_fetch)

lemma issued_getEmail:
  "issued s (snd (getEmail cl emailId e s)) = [request_init cl ''GET'' (''/email/'' @ emailId) no_options]"
  by (simp add: getEmail_def request_def snd_case_result request_impl_world issued_def sent_do_fetch)

lemma issued_getAttachment:
  "issued s (snd (getAttachment cl emailId attachmentId e s)) =
     [request_init cl ''GET'' (''/email/'' @ emailId @ ''/attachments/'' @ attachmentId) no_options]"
  by (simp add: getAttachment_def request_raw_def request_impl_world issued_def sent_do_fetch)

lemma issued_deleteEmail:
  "issued s (snd (deleteEmail cl emailId e s)) = [request_init cl ''DELETE'' (''/email/'' @ emailId) no_options]"
  by (simp add: deleteEmail_def request_def snd_case_result request_impl_world issued_def sent_do_fetch)

lemma issued_deleteMailbox:
  "issued s (snd (deleteMailbox cl address e s)) =
     [request_init cl ''DELETE'' (''/mailbox/'' @ encodeURIComponent address) no_options]"
  by (simp add: deleteMailbox_def request_def snd_case_result request_impl_world issued_def sent_do_fetch)

lemma issued_pollForEmails:
  assumes "pollForEmails cl address tmo ms C e s = Some (r, s')"
  shows "\<exists>n. issued s s' = replicate n (poll_request cl address)"
proof -
  from assms have "pollForEmails_loop cl e address (now s + tmo) ms C s = Some (r, s')"
    by (simp add: pollForEmails_def)
  from poll_sent [OF this] show ?thesis by (auto simp add: issued_def)
qed

lemma header_Authorization:
  "header ''Authorization'' (request_init cl m p opts) =
     (case apiKey cl of None \<Rightarrow> None | Some k \<Rightarrow> if k = [] then None else Some (''Bearer '' @ k))"
  by (simp add: header_def request_init_def request_headers_def split: option.splits)

lemma header_poll_request:
  "header ''Authorization'' (poll_request cl address) =
     (case apiKey cl of None \<Rightarrow> None | Some k \<Rightarrow> if k = [] then None else Some (''Bearer '' @ k))"
  unfolding poll_request_def by (rule header_Authorization)

subsection \<open>The Authorization header\<close>

text \<open>
  C5, as stated, fails for the empty credential.
  A client built with the credential \<^verbatim>\<open>apiKey: ""\<close> has a credential set, and its
  requests carry no Authorization header: the guard is \<^verbatim>\<open>if (this.apiKey)\<close>, and the empty
  string is falsy.
\<close>

theorem authorization_counterexample:
  "apiKey (new_VanishClient ''https://api.vanish.host'' \<lparr>opt_apiKey = Some [], opt_timeout = None\<rparr>) = Some [] \<and>
   map (header ''Authorization'')
     (issued midnight (snd (getDomains
        (new_VanishClient ''https://api.vanish.host'' \<lparr>opt_apiKey = Some [], opt_timeout = None\<rparr>)
        (answering (domains_response [''vanish.host''])) midnight))) = [None]"
  by (simp add: issued_getDomains header_Authorization new_VanishClient_def)

text \<open>
  C5, as amended. When the credential is set and is not the empty string, every request
  that an operation issues carries the header \<^verbatim>\<open>Authorization: Bearer <credential>\<close>; when
  no credential is set, or the credential is the empty string, no request carries an
  Authorization header. The operations are the seven that issue one request and
  \<^verbatim>\<open>pollForEmails\<close>, whose requests are those of its \<^verbatim>\<open>listEmails\<close> calls.
\<close>

theorem authorization_header:
  assumes "expected = (case apiKey cl of None \<Rightarrow> None
                       | Some k \<Rightarrow> if k = [] then None else Some (''Bearer '' @ k))"
  shows "(\<forall>req \<in> set (issued s (snd (getDomains cl e_dom s))). header ''Authorization'' req = expected) \<and>
         (\<forall>req \<in> set (issued s (snd (generateEmail cl options e_gen s))). header ''Authorization'' req = expected) \<and>
         (\<forall>req \<in> set (issued s (snd (listEmails cl address listOptions e_list s))). header ''Authorization'' req = expected) \<and>
         (\<forall>req \<in> set (issued s (snd (getEmail cl emailId e_mail s))). header ''Authorization'' req = expected) \<and>
         (\<forall>req \<in> set (issued s (snd (getAttachment cl emailId attachmentId e_att s))). header ''Authorization'' req = expected) \<and>
         (\<forall>req \<in> set (issued s (snd (deleteEmail cl emailId e_del s))). header ''Authorization'' req = expected) \<and>
         (\<forall>req \<in> set (issued s (snd (deleteMailbox cl address e_box s))). header ''Authorization'' req = expected) \<and>
         (\<forall>r s'. pollForEmails cl address tmo ms C e_list s = Some (r, s') \<longrightarrow>
            (\<forall>req \<in> set (issued s s'). header ''Authorization'' req = expected))"
proof -
  have poll: "\<forall>r s'. pollForEmails cl address tmo ms C e_list s = Some (r, s') \<longrightarrow>
      (\<forall>req \<in> set (issued s s'). header ''Authorization'' req = expected)"
  proof (intro allI impI ballI)
    fix r s' req
    assume "pollForEmails cl address tmo ms C e_list s = Some (r, s')" and req: "req \<in> set (issued s s')"
    from issued_pollForEmails [OF this(1)] obtain n where
      "issued s s' = replicate n (poll_request cl address)" by blast
    with req have "req = poll_request cl address" by simp
    then show "header ''Authorization'' req = expected"
      by (simp add: header_poll_request assms)
  qed
  show ?thesis
    by (intro conjI poll)
       (simp_all add: issued_getDomains issued_generateEmail issued_listEmails issued_getEmail
          issued_getAttachment issued_deleteEmail issued_deleteMailbox header_Authorization assms)
qed

theorem authorization_header_witness:
  "Some ''Bearer k3y'' =
     (case apiKey demo_client of None \<Rightarrow> None
      | Some k \<Rightarrow> if k = [] then None else Some (''Bearer '' @ k)) \<and>
   map (header ''Authorization'')
     (issued midnight (snd (deleteEmail demo_client ''m1'' (scripted (\<lambda>k. Rejected AbortError)) midnight))) =
     [Some ''Bearer k3y'']"
proof -
  have h: "Some ''Bearer k3y'' =
     (case apiKey demo_client of None \<Rightarrow> None
      | Some k \<Rightarrow> if k = [] then None else Some (''Bearer '' @ k))"
    by (simp add: demo_client_simps)
  from authorization_header [OF h, where s = midnight and emailId = "''m1''"
      and e_del = "scripted (\<lambda>k. Rejected AbortError)"]
  have "\<forall>req \<in> set (issued midnight (snd (deleteEmail demo_client ''m1''
          (scripted (\<lambda>k. Rejected AbortError)) midnight))).
        header ''Authorization'' req = Some ''Bearer k3y''"
    by blast
  then have "map (header ''Authorization'')
     (issued midnight (snd (deleteEmail demo_client ''m1'' (scripted (\<lambda>k. Rejected AbortError)) midnight))) =
     [Some ''Bearer k3y'']"
    by (simp add: issued_deleteEmail)
  with h show ?thesis by blast
qed

subsection \<open>Addresses and ids in the path\<close>

lemma digit_char_hex: "d < 16 \<Longrightarrow> digit_char d \<in> set ''0123456789ABCDEF''"
  unfolding digit_char_def by (rule nth_mem) simp

lemma set_percent_byte: "set (percent_byte c) \<subseteq> set ''%0123456789ABCDEF''"
proof -
  have "(of_char c :: nat) < 16 * 16"
    using nat_of_char_less_256 [of c] by simp
  then have "of_char c div 16 < (16::nat)"
    by (rule less_mult_imp_div_less)
  then have "digit_char (of_char c div 16) \<in> set ''0123456789ABCDEF''" by (rule digit_char_hex)
  moreover have "digit_char (of_char c mod 16) \<in> set ''0123456789ABCDEF''"
    by (rule digit_char_hex) simp
  ultimately show ?thesis by (auto simp: percent_byte_def)
qed

lemma set_encodeURIComponent:
  "set (encodeURIComponent a) \<subseteq> set uri_unreserved \<union> set ''%0123456789ABCDEF''"
  using set_percent_byte by (fastforce simp: encodeURIComponent_def)

lemma url_request_init_no_options:
  "url (request_init cl m path no_options) = baseUrl cl @ path"
  by (simp add: request_init_def request_url_def query_string_def no_options_def)

text \<open>
  C10. \<^verbatim>\<open>listEmails\<close> and \<^verbatim>\<open>deleteMailbox\<close> put the address into the path through
  \<^verbatim>\<open>encodeURIComponent\<close>: every byte that is not unreserved is written as \<^verbatim>\<open>%XX\<close>, so
  the segment has no \<^verbatim>\<open>/\<close>, \<^verbatim>\<open>?\<close> or \<^verbatim>\<open>#\<close>. \<^verbatim>\<open>getEmail\<close>, \<^verbatim>\<open>getAttachment\<close> and
  \<^verbatim>\<open>deleteEmail\<close> put the e-mail id and the attachment id into the path as they are, so a
  \<^verbatim>\<open>/\<close> in an id is a \<^verbatim>\<open>/\<close> of the requested path.
\<close>

theorem path_segments:
  "map url (issued s (snd (listEmails cl address listOptions e_list s))) =
     [baseUrl cl @ ''/mailbox/'' @ encodeURIComponent address @
      query_string (Some [(''limit'', number_or_undefined (limit listOptions)),
                          (''cursor'', string_or_undefined (cursor listOptions))])] \<and>
   map url (issued s (snd (deleteMailbox cl address e_box s))) =
     [baseUrl cl @ ''/mailbox/'' @ encodeURIComponent address] \<and>
   encodeURIComponent address =
     concat (map (\<lambda>c. if c \<in> set uri_unreserved then [c] else percent_byte c) address) \<and>
   set (encodeURIComponent address) \<subseteq> set uri_unreserved \<union> set ''%0123456789ABCDEF'' \<and>
   CHR ''/'' \<notin> set (encodeURIComponent address) \<and>
   CHR ''?'' \<notin> set (encodeURIComponent address) \<and>
   CHR ''#'' \<notin> set (encodeURIComponent address) \<and>
   map url (issued s (snd (getEmail cl emailId e_mail s))) = [baseUrl cl @ ''/email/'' @ emailId] \<and>
   map url (issued s (snd (getAttachment cl emailId attachmentId e_att s))) =
     [baseUrl cl @ ''/email/'' @ emailId @ ''/attachments/'' @ attachmentId] \<and>
   map url (issued s (snd (deleteEmail cl emailId e_del s))) = [baseUrl cl @ ''/email/'' @ emailId]"
proof -
  have "CHR ''/'' \<notin> set uri_unreserved \<union> set ''%0123456789ABCDEF''"
    "CHR ''?'' \<notin> set uri_unreserved \<union> set ''%0123456789ABCDEF''"
    "CHR ''#'' \<notin> set uri_unreserved \<union> set ''%0123456789ABCDEF''"
    by (simp_all add: uri_unreserved_def alphanumeric_def)
  with set_encodeURIComponent [of address] have significant:
    "CHR ''/'' \<notin> set (encodeURIComponent address)"
    "CHR ''?'' \<notin> set (encodeURIComponent address)"
    "CHR ''#'' \<notin> set (encodeURIComponent address)"
    by blast+
  have list: "map url (issued s (snd (listEmails cl address listOptions e_list s))) =
     [baseUrl cl @ ''/mailbox/'' @ encodeURIComponent address @
      query_string (Some [(''limit'', number_or_undefined (limit listOptions)),
                          (''cursor'', string_or_undefined (cursor listOptions))])]"
    by (simp add: issued_listEmails request_init_def request_url_def)
  have box: "map url (issued s (snd (deleteMailbox cl address e_box s))) =
     [baseUrl cl @ ''/mailbox/'' @ encodeURIComponent address]"
    by (simp add: issued_deleteMailbox url_request_init_no_options)
  have enc: "encodeURIComponent address =
     concat (map (\<lambda>c. if c \<in> set uri_unreserved then [c] else percent_byte c) address)"
    by (simp add: encodeURIComponent_def)
  have mail: "map url (issued s (snd (getEmail cl emailId e_mail s))) = [baseUrl cl @ ''/email/'' @ emailId]"
    by (simp add: issued_getEmail url_request_init_no_options)
  have att: "map url (issued s (snd (getAttachment cl emailId attachmentId e_att s))) =
     [baseUrl cl @ ''/email/'' @ emailId @ ''/attachments/'' @ attachmentId]"
    by (simp add: issued_getAttachment url_request_init_no_options)
  have del: "map url (issued s (snd (deleteEmail cl emailId e_del s))) = [baseUrl cl @ ''/email/'' @ emailId]"
    by (simp add: issued_deleteEmail url_request_init_no_options)
  from list box enc set_encodeURIComponent [of address] significant mail att del
  show ?thesis by blast
qed

theorem path_segments_witness:
  "map url (issued midnight (snd (deleteMailbox demo_client ''a/b'' (scripted (\<lambda>k. Rejected AbortError)) midnight))) =
     [''https://api.vanish.host/mailbox/a%2Fb''] \<and>
   map url (issued midnight (snd (getEmail demo_client ''a/b'' (scripted (\<lambda>k. Rejected AbortError)) midnight))) =
     [''https://api.vanish.host/email/a/b''] \<and>
   map url (issued midnight (snd (getAttachment demo_client ''a/b'' ''../c''
       (scripted (\<lambda>k. Rejected AbortError) :: unit env) midnight))) =
     [''https://api.vanish.host/email/a/b/attachments/../c'']"
proof -
  let ?e = "scripted (\<lambda>k. Rejected AbortError)"
  have enc: "encodeURIComponent ''a/b'' = ''a%2Fb''"
    by (simp add: encodeURIComponent_def uri_unreserved_def alphanumeric_def percent_byte_def
        digit_char_def)
  note all = path_segments [where s = midnight and cl = demo_client and address = "''a/b''"
      and emailId = "''a/b''" and attachmentId = "''../c''"
      and e_box = ?e and e_mail = ?e and e_att = ?e and e_del = ?e and e_list = ?e
      and listOptions = "\<lparr>limit = None, cursor = None\<rparr>"]
  have "map url (issued midnight (snd (deleteMailbox demo_client ''a/b'' ?e midnight))) =
      [baseUrl demo_client @ ''/mailbox/'' @ encodeURIComponent ''a/b'']"
    using all by blast
  moreover have "map url (issued midnight (snd (getEmail demo_client ''a/b'' ?e midnight))) =
      [baseUrl demo_client @ ''/email/'' @ ''a/b'']"
    using all by blast
  moreover have "map url (issued midnight (snd (getAttachment demo_client ''a/b'' ''../c'' ?e midnight))) =
      [baseUrl demo_client @ ''/email/'' @ ''a/b'' @ ''/attachments/'' @ ''../c'']"
    using all by blast
  ultimately show ?thesis
    by (simp add: enc demo_client_simps)
qed

subsection \<open>Timestamps\<close>

lemma iso_instant_midnight: "iso_instant ''2024-01-01T00:00:00.000Z'' = Some 1704067200000"
  by (simp add: iso_instant_def digit_value_def days_in_month_def days_from_civil_def)

lemma request_Inr:
  assumes "fst (request cl m p opts e s) = Inr v"
  shows "\<exists>response d. fetch e (length (sent s)) (request_init cl m p opts) = Resolved response \<and>
           ok response \<and> json response = Resolved d \<and> v = typed d"
  using assms
  by (auto simp: request_def request_impl_def do_fetch_def read_json_def
      split: settled.splits if_splits)

text \<open>
  C7. What \<^verbatim>\<open>listEmails\<close> and \<^verbatim>\<open>getEmail\<close> return is the document of the response with
  one change: each \<^verbatim>\<open>receivedAt\<close> is replaced by \<^verbatim>\<open>new Date(receivedAt)\<close>. Every other
  field of a summary and of a detail, the cursor and the total are passed through as they
  are. \<^verbatim>\<open>new Date\<close> of a string is the date that \<^verbatim>\<open>Date.parse\<close> reads from it; where
  \<^verbatim>\<open>Date.parse\<close> reads the date-time format of ECMAScript as the format says, a timestamp
  in that format becomes the date of the instant it denotes. Normalizing a normalized
  value gives an equal value.
\<close>

theorem timestamps_normalized:
  "(\<forall>result. fst (listEmails cl address listOptions e_list s) = Inr result \<longrightarrow>
      (\<exists>response d.
         fetch e_list (length (sent s))
           (request_init cl ''GET'' (''/mailbox/'' @ encodeURIComponent address)
              \<lparr>params = Some [(''limit'', number_or_undefined (limit listOptions)),
                              (''cursor'', string_or_undefined (cursor listOptions))],
               req_body = JUndefined\<rparr>) = Resolved response \<and>
         json response = Resolved d \<and>
         result = \<lparr>p_data = map (\<lambda>m. m\<lparr>s_receivedAt := new_Date (Date_parse e_list) (s_receivedAt m)\<rparr>)
                               (p_data (typed d)),
                    p_nextCursor = p_nextCursor (typed d),
                    p_total = p_total (typed d)\<rparr>)) \<and>
   (\<forall>result. fst (getEmail cl emailId e_mail s) = Inr result \<longrightarrow>
      (\<exists>response d.
         fetch e_mail (length (sent s)) (request_init cl ''GET'' (''/email/'' @ emailId) no_options) =
           Resolved response \<and>
         json response = Resolved d \<and>
         result = (typed d)\<lparr>d_receivedAt := new_Date (Date_parse e_mail) (d_receivedAt (typed d))\<rparr>)) \<and>
   (let m' = m\<lparr>s_receivedAt := new_Date parse (s_receivedAt m)\<rparr>
    in s_id m' = s_id m \<and> s_from m' = s_from m \<and> s_subject m' = s_subject m \<and>
       s_textPreview m' = s_textPreview m \<and> s_hasAttachments m' = s_hasAttachments m \<and>
       s_receivedAt m' = new_Date parse (s_receivedAt m) \<and>
       m'\<lparr>s_receivedAt := new_Date parse (s_receivedAt m')\<rparr> = m') \<and>
   (let d' = dt\<lparr>d_receivedAt := new_Date parse (d_receivedAt dt)\<rparr>
    in d_id d' = d_id dt \<and> d_from d' = d_from dt \<and> d_to d' = d_to dt \<and>
       d_subject d' = d_subject dt \<and> d_html d' = d_html dt \<and> d_text d' = d_text dt \<and>
       d_hasAttachments d' = d_hasAttachments dt \<and> d_attachments d' = d_attachments dt \<and>
       d_receivedAt d' = new_Date parse (d_receivedAt dt) \<and>
       d'\<lparr>d_receivedAt := new_Date parse (d_receivedAt d')\<rparr> = d') \<and>
   new_Date parse (Wire w) = Date (parse w) \<and>
   ((\<forall>w t. iso_instant w = Some t \<longrightarrow> parse w = Some t) \<longrightarrow>
    (\<forall>w t. iso_instant w = Some t \<longrightarrow> new_Date parse (Wire w) = Date (Some t))) \<and>
   new_Date parse (new_Date parse ts) = new_Date parse ts"
proof -
  have idem: "new_Date parse (new_Date parse x) = new_Date parse x" for x
    by (cases x) simp_all
  have list: "\<forall>result. fst (listEmails cl address listOptions e_list s) = Inr result \<longrightarrow>
      (\<exists>response d.
         fetch e_list (length (sent s))
           (request_init cl ''GET'' (''/mailbox/'' @ encodeURIComponent address)
              \<lparr>params = Some [(''limit'', number_or_undefined (limit listOptions)),
                              (''cursor'', string_or_undefined (cursor listOptions))],
               req_body = JUndefined\<rparr>) = Resolved response \<and>
         json response = Resolved d \<and>
         result = \<lparr>p_data = map (\<lambda>m. m\<lparr>s_receivedAt := new_Date (Date_parse e_list) (s_receivedAt m)\<rparr>)
                               (p_data (typed d)),
                    p_nextCursor = p_nextCursor (typed d),
                    p_total = p_total (typed d)\<rparr>)"
    by (auto simp: listEmails_def request_def request_impl_def do_fetch_def read_json_def
        split: settled.splits if_splits)
  have mail: "\<forall>result. fst (getEmail cl emailId e_mail s) = Inr result \<longrightarrow>
      (\<exists>response d.
         fetch e_mail (length (sent s)) (request_init cl ''GET'' (''/email/'' @ emailId) no_options) =
           Resolved response \<and>
         json response = Resolved d \<and>
         result = (typed d)\<lparr>d_receivedAt := new_Date (Date_parse e_mail) (d_receivedAt (typed d))\<rparr>)"
    by (auto simp: getEmail_def request_def request_impl_def do_fetch_def read_json_def
        split: settled.splits if_splits)
  have summary: "let m' = m\<lparr>s_receivedAt := new_Date parse (s_receivedAt m)\<rparr>
    in s_id m' = s_id m \<and> s_from m' = s_from m \<and> s_subject m' = s_subject m \<and>
       s_textPreview m' = s_textPreview m \<and> s_hasAttachments m' = s_hasAttachments m \<and>
       s_receivedAt m' = new_Date parse (s_receivedAt m) \<and>
       m'\<lparr>s_receivedAt := new_Date parse (s_receivedAt m')\<rparr> = m'"
    by (simp add: idem)
  have detail: "let d' = dt\<lparr>d_receivedAt := new_Date parse (d_receivedAt dt)\<rparr>
    in d_id d' = d_id dt \<and> d_from d' = d_from dt \<and> d_to d' = d_to dt \<and>
       d_subject d' = d_subject dt \<and> d_html d' = d_html dt \<and> d_text d' = d_text dt \<and>
       d_hasAttachments d' = d_hasAttachments dt \<and> d_attachments d' = d_attachments dt \<and>
       d_receivedAt d' = new_Date parse (d_receivedAt dt) \<and>
       d'\<lparr>d_receivedAt := new_Date parse (d_receivedAt d')\<rparr> = d'"
    by (simp add: idem)
  have wire: "new_Date parse (Wire w) = Date (parse w)" by simp
  have instant: "(\<forall>w t. iso_instant w = Some t \<longrightarrow> parse w = Some t) \<longrightarrow>
    (\<forall>w t. iso_instant w = Some t \<longrightarrow> new_Date parse (Wire w) = Date (Some t))"
    by simp
  from list mail summary detail wire instant idem [of ts] show ?thesis by blast
qed

theorem timestamps_normalized_witness:
  "fst (listEmails demo_client ''x@y.z'' \<lparr>limit = None, cursor = None\<rparr>
          (answering (page_response
             \<lparr>p_data = [demo_summary], p_nextCursor = None, p_total = 1\<rparr>)) midnight) =
     Inr \<lparr>p_data = [demo_summary\<lparr>s_receivedAt := Date (Some 1704067200000)\<rparr>],
          p_nextCursor = None, p_total = 1\<rparr> \<and>
   fst (getEmail demo_client ''m1'' (answering (detail_response demo_detail)) midnight) =
     Inr (demo_detail\<lparr>d_receivedAt := Date (Some 1704067200000)\<rparr>) \<and>
   new_Date iso_instant (Wire ''2024-01-01T00:00:00.000Z'') = Date (Some 1704067200000) \<and>
   new_Date iso_instant (Date (Some 1704067200000)) = Date (Some 1704067200000)"
proof -
  let ?page = "\<lparr>p_data = [demo_summary], p_nextCursor = None, p_total = 1\<rparr>"
  let ?el = "answering (page_response ?page)"
  let ?em = "answering (detail_response demo_detail)"
  note all = timestamps_normalized [where cl = demo_client and address = "''x@y.z''"
      and listOptions = "\<lparr>limit = None, cursor = None\<rparr>" and e_list = ?el and s = midnight
      and emailId = "''m1''" and e_mail = ?em and parse = iso_instant
      and w = "''2024-01-01T00:00:00.000Z''" and ts = "Wire ''2024-01-01T00:00:00.000Z''"
      and m = demo_summary and dt = demo_detail]
  have parse: "Date_parse (answering r) = iso_instant" for r :: "'a http_response"
    by (simp add: answering_def scripted_def)
  obtain r1 where r1: "fst (listEmails demo_client ''x@y.z'' \<lparr>limit = None, cursor = None\<rparr> ?el midnight) = Inr r1"
    by (simp add: listEmails_def request_def request_impl_def do_fetch_def read_json_def
        fetch_answering page_response_def json_response_def ok_def)
  with all obtain response d where
    "fetch ?el (length (sent midnight))
       (request_init demo_client ''GET'' (''/mailbox/'' @ encodeURIComponent ''x@y.z'')
          \<lparr>params = Some [(''limit'', number_or_undefined (limit \<lparr>limit = None, cursor = None\<rparr>)),
                          (''cursor'', string_or_undefined (cursor \<lparr>limit = None, cursor = None\<rparr>))],
           req_body = JUndefined\<rparr>) = Resolved response"
    "json response = Resolved d"
    "r1 = \<lparr>p_data = map (\<lambda>m. m\<lparr>s_receivedAt := new_Date (Date_parse ?el) (s_receivedAt m)\<rparr>)
                        (p_data (typed d)),
           p_nextCursor = p_nextCursor (typed d), p_total = p_total (typed d)\<rparr>"
    by blast
  then have "r1 = \<lparr>p_data = [demo_summary\<lparr>s_receivedAt := Date (Some 1704067200000)\<rparr>],
          p_nextCursor = None, p_total = 1\<rparr>"
    by (auto simp: fetch_answering page_response_def json_response_def parse demo_summary_def
        iso_instant_midnight)
  with r1 have list: "fst (listEmails demo_client ''x@y.z'' \<lparr>limit = None, cursor = None\<rparr> ?el midnight) =
     Inr \<lparr>p_data = [demo_summary\<lparr>s_receivedAt := Date (Some 1704067200000)\<rparr>],
          p_nextCursor = None, p_total = 1\<rparr>"
    by simp
  obtain r2 where r2: "fst (getEmail demo_client ''m1'' ?em midnight) = Inr r2"
    by (simp add: getEmail_def request_def request_impl_def do_fetch_def read_json_def
        fetch_answering detail_response_def json_response_def ok_def)
  with all obtain response d where
    "fetch ?em (length (sent midnight)) (request_init demo_client ''GET'' (''/email/'' @ ''m1'') no_options) =
       Resolved response"
    "json response = Resolved d"
    "r2 = (typed d)\<lparr>d_receivedAt := new_Date (Date_parse ?em) (d_receivedAt (typed d))\<rparr>"
    by blast
  then have "r2 = demo_detail\<lparr>d_receivedAt := Date (Some 1704067200000)\<rparr>"
    by (auto simp: fetch_answering detail_response_def json_response_def parse demo_detail_def
        iso_instant_midnight)
  with r2 have mail: "fst (getEmail demo_client ''m1'' ?em midnight) =
     Inr (demo_detail\<lparr>d_receivedAt := Date (Some 1704067200000)\<rparr>)"
    by simp
  from all have "new_Date iso_instant (Wire ''2024-01-01T00:00:00.000Z'') =
      Date (iso_instant ''2024-01-01T00:00:00.000Z'')"
    by blast
  then have wire: "new_Date iso_instant (Wire ''2024-01-01T00:00:00.000Z'') = Date (Some 1704067200000)"
    by (simp add: iso_instant_midnight)
  from all have "new_Date iso_instant (new_Date iso_instant (Wire ''2024-01-01T00:00:00.000Z'')) =
      new_Date iso_instant (Wire ''2024-01-01T00:00:00.000Z'')"
    by blast
  with wire have again: "new_Date iso_instant (Date (Some 1704067200000)) = Date (Some 1704067200000)"
    by simp
  from list mail wire again show ?thesis by blast
qed

subsection \<open>The body of generateEmail\<close>




subsection \<open>The query string\<close>

lemma hex_value_digit_char_all: "\<forall>d \<in> set [0..<16]. hex_value (digit_char d) = d"
  by code_simp

lemma hex_value_digit_char: "d < 16 \<Longrightarrow> hex_value (digit_char d) = d"
  using hex_value_digit_char_all by simp

lemma decode_percent_byte:
  "char_of (16 * hex_value (digit_char (of_char c div 16)) + hex_value (digit_char (of_char c mod 16))) = c"
proof -
  have "(of_char c :: nat) < 16 * 16"
    using nat_of_char_less_256 [of c] by simp
  then have "of_char c div 16 < (16::nat)"
    by (rule less_mult_imp_div_less)
  then have "16 * hex_value (digit_char (of_char c div 16)) + hex_value (digit_char (of_char c mod 16)) =
      (of_char c :: nat)"
    by (simp add: hex_value_digit_char)
  then show ?thesis by (simp only: char_of_char)
qed

lemma form_safe_all:
  "\<forall>c \<in> set (alphanumeric @ ''*-._'').
     c \<noteq> CHR ''+'' \<and> c \<noteq> CHR ''%'' \<and> c \<noteq> CHR ''&'' \<and> c \<noteq> CHR ''=''"
  by code_simp

lemma hex_digits_all:
  "\<forall>c \<in> set ''%0123456789ABCDEF''. c \<noteq> CHR ''&'' \<and> c \<noteq> CHR ''=''"
  by code_simp

lemma form_urldecode_byte: "form_urldecode (form_byte c @ t) = c # form_urldecode t"
proof (cases "c = CHR '' ''")
  case True
  then show ?thesis by (simp add: form_byte_def)
next
  case False
  show ?thesis
  proof (cases "c \<in> set (alphanumeric @ ''*-._'')")
    case True
    with form_safe_all have "c \<noteq> CHR ''+''" "c \<noteq> CHR ''%''" by blast+
    with True False show ?thesis by (simp add: form_byte_def)
  next
    case unsafe: False
    with False have "form_byte c = percent_byte c" by (simp add: form_byte_def)
    then show ?thesis
      using decode_percent_byte [of c] by (simp add: percent_byte_def)
  qed
qed

lemma form_urlencode_Cons: "form_urlencode (c # s) = form_byte c @ form_urlencode s"
  by (simp add: form_urlencode_def)

lemma form_urldecode_encode: "form_urldecode (form_urlencode s) = s"
proof (induction s)
  case Nil
  then show ?case by (simp add: form_urlencode_def)
next
  case (Cons c s)
  then show ?case by (simp add: form_urlencode_Cons form_urldecode_byte)
qed

lemma set_form_byte:
  assumes "x \<in> set (form_byte c)"
  shows "x \<noteq> CHR ''&'' \<and> x \<noteq> CHR ''=''"
proof (cases "c = CHR '' ''")
  case True
  with assms show ?thesis by (simp add: form_byte_def)
next
  case False
  show ?thesis
  proof (cases "c \<in> set (alphanumeric @ ''*-._'')")
    case True
    with False assms have "x = c" by (simp add: form_byte_def)
    with True form_safe_all show ?thesis by blast
  next
    case unsafe: False
    with False assms have "x \<in> set (percent_byte c)" by (simp add: form_byte_def)
    with set_percent_byte [of c] have "x \<in> set ''%0123456789ABCDEF''" by blast
    with hex_digits_all show ?thesis by blast
  qed
qed

lemma set_form_urlencode: "x \<in> set (form_urlencode s) \<Longrightarrow> x \<noteq> CHR ''&'' \<and> x \<noteq> CHR ''=''"
proof (induction s)
  case Nil
  then show ?case by (simp add: form_urlencode_def)
next
  case (Cons c s)
  then show ?case using set_form_byte [of x c] by (auto simp: form_urlencode_Cons)
qed

lemma split_on_none: "sep \<notin> set x \<Longrightarrow> split_on sep x = [x]"
  by (induction x) auto

lemma split_on_append: "sep \<notin> set x \<Longrightarrow> split_on sep (x @ sep # rest) = x # split_on sep rest"
  by (induction x) auto

lemma split_on_join:
  "xs \<noteq> [] \<Longrightarrow> \<forall>x \<in> set xs. sep \<notin> set x \<Longrightarrow> split_on sep (join [sep] xs) = xs"
proof (induction xs)
  case Nil
  then show ?case by simp
next
  case (Cons x xs)
  show ?case
  proof (cases xs)
    case Nil
    with Cons.prems show ?thesis by (simp add: split_on_none)
  next
    case (Cons y ys)
    with Cons.IH Cons.prems have "split_on sep (join [sep] xs) = xs" by simp
    with Cons Cons.prems show ?thesis by (simp add: split_on_append)
  qed
qed

lemma read_part:
  "(form_urldecode (takeWhile (\<lambda>c. c \<noteq> CHR ''='') (form_urlencode k @ ''='' @ form_urlencode v)),
    form_urldecode (drop 1 (dropWhile (\<lambda>c. c \<noteq> CHR ''='') (form_urlencode k @ ''='' @ form_urlencode v)))) =
   (k, v)"
proof -
  have no_eq: "\<forall>x \<in> set (form_urlencode k). x \<noteq> CHR ''=''"
    using set_form_urlencode by blast
  have "takeWhile (\<lambda>c. c \<noteq> CHR ''='') (form_urlencode k @ CHR ''='' # form_urlencode v) = form_urlencode k"
    using no_eq by (simp add: takeWhile_tail)
  moreover have "dropWhile (\<lambda>c. c \<noteq> CHR ''='') (form_urlencode k @ CHR ''='' # form_urlencode v) =
      CHR ''='' # form_urlencode v"
    using no_eq by (simp add: dropWhile_append3)
  ultimately show ?thesis by (simp add: form_urldecode_encode)
qed

lemma parse_query_join:
  assumes "pairs \<noteq> []"
  shows "parse_query (''?'' @ URLSearchParams_toString pairs) = pairs"
proof -
  let ?parts = "map (\<lambda>(k, v). form_urlencode k @ ''='' @ form_urlencode v) pairs"
  have "\<forall>x \<in> set ?parts. CHR ''&'' \<notin> set x"
    using set_form_urlencode by fastforce
  moreover from assms have "?parts \<noteq> []" by simp
  ultimately have "split_on CHR ''&'' (join ''&'' ?parts) = ?parts"
    by (intro split_on_join)
  then have "parse_query (''?'' @ URLSearchParams_toString pairs) =
      map (\<lambda>part. (form_urldecode (takeWhile (\<lambda>c. c \<noteq> CHR ''='') part),
                        form_urldecode (drop 1 (dropWhile (\<lambda>c. c \<noteq> CHR ''='') part)))) ?parts"
    by (simp add: parse_query_def URLSearchParams_toString_def)
  also have "\<dots> = pairs"
    using read_part by (induction pairs) (auto simp del: form_urldecode.simps)
  finally show ?thesis .
qed

text \<open>
  C4. For every map of query parameters given to \<^verbatim>\<open>request\<close>, the query string is made of
  the entries whose value is not \<^verbatim>\<open>undefined\<close>, in their order, each as its encoded key,
  \<^verbatim>\<open>=\<close> and its encoded value, joined by \<^verbatim>\<open>&\<close> after a \<^verbatim>\<open>?\<close>. Read back, the query string
  holds exactly those entries: a key is left out when its value is \<^verbatim>\<open>undefined\<close> and only
  then, so a key with the value 0 or the empty string is in it. When every value is
  \<^verbatim>\<open>undefined\<close> nothing is appended to the path, not even the \<^verbatim>\<open>?\<close>.
\<close>

theorem query_string_entries:
  "query_string (Some entries) =
     (if filter (\<lambda>(k, v). v \<noteq> JUndefined) entries = [] then []
      else ''?'' @ join ''&'' (map (\<lambda>(k, v). form_urlencode k @ ''='' @ form_urlencode (js_String v))
                                 (filter (\<lambda>(k, v). v \<noteq> JUndefined) entries))) \<and>
   parse_query (query_string (Some entries)) =
     map (\<lambda>(k, v). (k, js_String v)) (filter (\<lambda>(k, v). v \<noteq> JUndefined) entries) \<and>
   map fst (parse_query (query_string (Some entries))) =
     map fst (filter (\<lambda>(k, v). v \<noteq> JUndefined) entries) \<and>
   url (request_init cl m path \<lparr>params = Some entries, req_body = b\<rparr>) =
     baseUrl cl @ path @ query_string (Some entries) \<and>
   ((\<forall>(k, v) \<in> set entries. v = JUndefined) \<longrightarrow>
      url (request_init cl m path \<lparr>params = Some entries, req_body = b\<rparr>) = baseUrl cl @ path)"
proof -
  let ?defined = "filter (\<lambda>(k, v). v \<noteq> JUndefined) entries"
  let ?pairs = "map (\<lambda>(k, v). (k, js_String v)) ?defined"
  have shape: "query_string (Some entries) =
     (if ?defined = [] then []
      else ''?'' @ join ''&'' (map (\<lambda>(k, v). form_urlencode k @ ''='' @ form_urlencode (js_String v)) ?defined))"
    by (simp add: query_string_def URLSearchParams_toString_def Let_def comp_def case_prod_unfold)
  have qs: "query_string (Some entries) =
      (if ?defined = [] then [] else ''?'' @ URLSearchParams_toString ?pairs)"
    by (simp add: query_string_def Let_def)
  have parsed: "parse_query (query_string (Some entries)) = ?pairs"
  proof (cases "?defined = []")
    case True
    then show ?thesis by (simp add: qs parse_query_def)
  next
    case False
    then have "?pairs \<noteq> []" by simp
    from parse_query_join [OF this] False show ?thesis by (simp add: qs)
  qed
  have keys: "map fst (parse_query (query_string (Some entries))) = map fst ?defined"
    by (simp add: parsed comp_def case_prod_unfold)
  have target: "url (request_init cl m path \<lparr>params = Some entries, req_body = b\<rparr>) =
     baseUrl cl @ path @ query_string (Some entries)"
    by (simp add: request_init_def request_url_def)
  have none: "(\<forall>(k, v) \<in> set entries. v = JUndefined) \<longrightarrow>
      url (request_init cl m path \<lparr>params = Some entries, req_body = b\<rparr>) = baseUrl cl @ path"
  proof
    assume "\<forall>(k, v) \<in> set entries. v = JUndefined"
    then have "?defined = []" by (auto simp: filter_empty_conv)
    then show "url (request_init cl m path \<lparr>params = Some entries, req_body = b\<rparr>) = baseUrl cl @ path"
      by (simp add: target qs)
  qed
  from shape parsed keys target none show ?thesis by blast
qed

theorem query_string_entries_witness:
  "query_string (Some [(''limit'', JNum 0), (''cursor'', JUndefined), (''q'', JStr [])]) = ''?limit=0&q='' \<and>
   parse_query ''?limit=0&q='' = [(''limit'', ''0''), (''q'', [])] \<and>
   url (request_init demo_client ''GET'' ''/mailbox/x''
          \<lparr>params = Some [(''limit'', JUndefined), (''cursor'', JUndefined)], req_body = JUndefined\<rparr>) =
     ''https://api.vanish.host/mailbox/x''"
proof -
  let ?entries = "[(''limit'', JNum 0), (''cursor'', JUndefined), (''q'', JStr [])]"
  let ?none = "[(''limit'', JUndefined), (''cursor'', JUndefined)]"
  have enc: "form_urlencode ''limit'' = ''limit''" "form_urlencode ''q'' = ''q''"
    "form_urlencode ''0'' = ''0''" "form_urlencode [] = []"
    by (simp_all add: form_urlencode_def form_byte_def alphanumeric_def)
  note a = query_string_entries [of ?entries demo_client "''GET''" "''/mailbox/x''" JUndefined]
  then have shape: "query_string (Some ?entries) = ''?limit=0&q=''"
    by (simp add: enc int_String_def digit_char_def)
  from a have "parse_query (query_string (Some ?entries)) =
      map (\<lambda>(k, v). (k, js_String v)) (filter (\<lambda>(k, v). v \<noteq> JUndefined) ?entries)"
    by blast
  then have parsed: "parse_query ''?limit=0&q='' = [(''limit'', ''0''), (''q'', [])]"
    by (simp add: shape int_String_def digit_char_def)
  note b = query_string_entries [of ?none demo_client "''GET''" "''/mailbox/x''" JUndefined]
  have "\<forall>(k, v) \<in> set ?none. v = JUndefined" by simp
  with b have "url (request_init demo_client ''GET'' ''/mailbox/x''
          \<lparr>params = Some ?none, req_body = JUndefined\<rparr>) = baseUrl demo_client @ ''/mailbox/x''"
    by blast
  then have none: "url (request_init demo_client ''GET'' ''/mailbox/x''
          \<lparr>params = Some ?none, req_body = JUndefined\<rparr>) = ''https://api.vanish.host/mailbox/x''"
    by (simp add: demo_client_simps)
  from shape parsed none show ?thesis by blast
qed

end
